theory Spec2Isabelle
  imports Complex_Main
begin

section \<open>Approx Sandbox: the rigid-body core of main.js\<close>

text \<open>
  The physics core of \<^verbatim>\<open>src/main/main.js\<close> (classes \<^verbatim>\<open>Vec3\<close>, the shape classes,
  \<^verbatim>\<open>RigidBody\<close>, \<^verbatim>\<open>PhysicsWorld\<close>, the functions \<^verbatim>\<open>boxCollides\<close> and
  \<^verbatim>\<open>cylinderCollides\<close>, and the scene save and import handlers) as HOL functions.

  Conventions of the embedding.
  \<^item> A JavaScript number is a \<^typ>\<open>real\<close>: the arithmetic is the exact one that double
    arithmetic rounds, and the non-finite values (NaN, the infinities) are not modelled.
    The one division of the modelled code whose divisor is not guarded is the one by
    \<^verbatim>\<open>a.invMass+b.invMass\<close> in the collision responses: for two static bodies the
    source stores non-finite numbers there, where \<open>x / 0 = 0\<close> in HOL. The statement
    about the numbers a response stores (claim C1) has both inverse masses positive; the
    statements about the counter and the bodies list (claims C9 and C10) are proved from
    the structure of the loops and use no property of those numbers.
  \<^item> A \<^verbatim>\<open>RigidBody\<close> is an object shared by reference between the array
    \<^verbatim>\<open>world.bodies\<close> and the arrays of the broadphase grid, so the world carries a heap
    from references to bodies, and both arrays hold references.
  \<^item> The \<^verbatim>\<open>Vec3\<close> fields of a body are values of the body: every assignment of the source
    stores a freshly allocated vector (\<^verbatim>\<open>copy\<close>, \<^verbatim>\<open>zero\<close>, \<^verbatim>\<open>add\<close>, ...).
  \<^item> The mesh (a three.js object) is the presentation proxy of a body: its position, the
    sequence of \<^verbatim>\<open>rotateX/Y/Z\<close> calls it received and its material colour.
\<close>

subsection \<open>Vec3\<close>

datatype vec3 = Vec3 (x_of: real) (y_of: real) (z_of: real)

definition Vec3_add :: "vec3 \<Rightarrow> vec3 \<Rightarrow> vec3" where
  "Vec3_add u v = Vec3 (x_of u + x_of v) (y_of u + y_of v) (z_of u + z_of v)"

definition Vec3_sub :: "vec3 \<Rightarrow> vec3 \<Rightarrow> vec3" where
  "Vec3_sub u v = Vec3 (x_of u - x_of v) (y_of u - y_of v) (z_of u - z_of v)"

definition Vec3_mul :: "vec3 \<Rightarrow> real \<Rightarrow> vec3" where
  "Vec3_mul u s = Vec3 (x_of u * s) (y_of u * s) (z_of u * s)"

definition Vec3_dot :: "vec3 \<Rightarrow> vec3 \<Rightarrow> real" where
  "Vec3_dot u v = x_of u * x_of v + y_of u * y_of v + z_of u * z_of v"

definition Vec3_length :: "vec3 \<Rightarrow> real" where
  "Vec3_length u = sqrt (x_of u * x_of u + y_of u * y_of u + z_of u * z_of u)"

text \<open>\<^verbatim>\<open>new Vec3()\<close> takes the default 0 for each component.\<close>

definition Vec3_normalize :: "vec3 \<Rightarrow> vec3" where
  "Vec3_normalize u =
     (let l = Vec3_length u in if l = 0 then Vec3 0 0 0 else Vec3_mul u (1 / l))"

definition Vec3_copy :: "vec3 \<Rightarrow> vec3" where
  "Vec3_copy u = Vec3 (x_of u) (y_of u) (z_of u)"

definition Vec3_zero :: vec3 where
  "Vec3_zero = Vec3 0 0 0"

datatype quaternion = Quaternion real real real real

subsection \<open>Shapes\<close>

text \<open>
  \<^verbatim>\<open>SHAPE_TYPE = { SPHERE:0, BOX:1, CYLINDER:2, CUSTOM:3 }\<close>. A shape object is its tag
  with the fields its class stores; the source reads \<^verbatim>\<open>radius\<close>, \<^verbatim>\<open>size\<close> and
  \<^verbatim>\<open>height\<close> in the simulation only after testing the tag.
\<close>

datatype shape =
    Sphere real
  | Box real
  | Cylinder real real
  | Compound "(shape \<times> vec3) list"

fun shape_type :: "shape \<Rightarrow> nat" where
  "shape_type (Sphere r) = 0"
| "shape_type (Box s) = 1"
| "shape_type (Cylinder r h) = 2"
| "shape_type (Compound cs) = 3"

text \<open>
  A constructor call either returns the new object or throws. \<^verbatim>\<open>TypeError\<close> is what the
  engine throws on a property read of \<^verbatim>\<open>undefined\<close>; \<^verbatim>\<open>InvalidGeometry\<close> is the error
  kind the specification names. The shape constructors only store their arguments.
\<close>

datatype error = InvalidGeometry | TypeError

definition SphereShape :: "real \<Rightarrow> error + shape" where
  "SphereShape radius = Inr (Sphere radius)"

definition BoxShape :: "real \<Rightarrow> error + shape" where
  "BoxShape sz = Inr (Box sz)"

text \<open>\<^verbatim>\<open>constructor(radius=1, height=2)\<close>: an argument that is \<^verbatim>\<open>undefined\<close> takes its default.\<close>

definition CylinderShape :: "real option \<Rightarrow> real option \<Rightarrow> error + shape" where
  "CylinderShape radius height =
     Inr (Cylinder (case radius of None \<Rightarrow> 1 | Some r \<Rightarrow> r)
                   (case height of None \<Rightarrow> 2 | Some h \<Rightarrow> h))"

definition CompoundShape :: "(shape \<times> vec3) list \<Rightarrow> error + shape" where
  "CompoundShape shapes = Inr (Compound shapes)"

subsection \<open>RigidBody\<close>

datatype axis = AxisX | AxisY | AxisZ

record mesh =
  mesh_position :: vec3
  mesh_rotations :: "(axis \<times> real) list"
  mesh_color :: nat

record rigid_body =
  position :: vec3
  velocity :: vec3
  force :: vec3
  shape :: shape
  mass :: real
  invMass :: real
  mesh :: "mesh option"
  restitution :: real
  friction :: real
  angularVelocity :: vec3
  orientation :: quaternion
  torque :: vec3
  inertia :: real
  invInertia :: real

definition shape_inertia :: "shape \<Rightarrow> real \<Rightarrow> real" where
  "shape_inertia sh m =
     (case sh of
        Sphere r \<Rightarrow> (2 / 5) * m * r ^ 2
      | Cylinder r h \<Rightarrow> (1 / 2) * m * r ^ 2
      | _ \<Rightarrow> 1)"

definition RigidBody :: "vec3 \<Rightarrow> shape \<Rightarrow> real \<Rightarrow> mesh option \<Rightarrow> rigid_body" where
  "RigidBody pos sh m me =
     \<lparr> position = Vec3_copy pos,
       velocity = Vec3_zero,
       force = Vec3_zero,
       shape = sh,
       mass = m,
       invMass = (if m > 0 then 1 / m else 0),
       mesh = me,
       restitution = 0.35,
       friction = 0.3,
       angularVelocity = Vec3_zero,
       orientation = Quaternion 0 0 0 1,
       torque = Vec3_zero,
       inertia = shape_inertia sh m,
       invInertia = (if shape_inertia sh m > 0 then 1 / shape_inertia sh m else 0) \<rparr>"

definition applyForce :: "vec3 \<Rightarrow> rigid_body \<Rightarrow> rigid_body" where
  "applyForce f b = b\<lparr>force := Vec3_add (force b) f\<rparr>"

definition applyTorque :: "vec3 \<Rightarrow> rigid_body \<Rightarrow> rigid_body" where
  "applyTorque t b = b\<lparr>torque := Vec3_add (torque b) t\<rparr>"

text \<open>
  The mesh part of \<^verbatim>\<open>integrate\<close>: \<^verbatim>\<open>mesh.position.set\<close>, then the three rotations when
  the angular speed exceeds 0.0001.
\<close>

definition mesh_follow :: "vec3 \<Rightarrow> vec3 \<Rightarrow> real \<Rightarrow> mesh \<Rightarrow> mesh" where
  "mesh_follow p w dt me =
     (let me1 = me\<lparr>mesh_position := Vec3 (x_of p) (y_of p) (z_of p)\<rparr>
      in if Vec3_length w > 0.0001
         then me1\<lparr>mesh_rotations := mesh_rotations me1 @
                    [(AxisX, x_of w * dt), (AxisY, y_of w * dt), (AxisZ, z_of w * dt)]\<rparr>
         else me1)"

definition integrate :: "real \<Rightarrow> rigid_body \<Rightarrow> rigid_body" where
  "integrate dt b =
     (if invMass b = 0 then b
      else
        let v = Vec3_add (velocity b) (Vec3_mul (force b) (dt * invMass b));
            p = Vec3_add (position b) (Vec3_mul v dt);
            w = Vec3_add (angularVelocity b) (Vec3_mul (torque b) (dt * invInertia b))
        in b\<lparr> velocity := v,
               position := p,
               angularVelocity := w,
               torque := Vec3_zero,
               mesh := map_option (mesh_follow p w dt) (mesh b),
               force := Vec3_zero \<rparr>)"

subsection \<open>PhysicsWorld\<close>

type_synonym ref = nat

datatype extents = Extents (extent_x: real) (extent_y: real) (extent_z: real)

record world =
  bodies :: "ref list"
  gravity :: vec3
  bounds :: extents
  collisionCount :: nat
  heap :: "ref \<Rightarrow> rigid_body"

text \<open>The constructor, in a heap \<open>h\<close> of the bodies allocated so far.\<close>

definition PhysicsWorld :: "(ref \<Rightarrow> rigid_body) \<Rightarrow> world" where
  "PhysicsWorld h =
     \<lparr> bodies = [], gravity = Vec3 0 (- 10) 0, bounds = Extents 20 20 20,
       collisionCount = 0, heap = h \<rparr>"

definition addBody :: "ref \<Rightarrow> world \<Rightarrow> world" where
  "addBody b w = w\<lparr>bodies := bodies w @ [b]\<rparr>"

text \<open>\<^verbatim>\<open>indexOf\<close> finds the first occurrence, \<^verbatim>\<open>splice(i,1)\<close> removes it.\<close>

definition removeBody :: "ref \<Rightarrow> world \<Rightarrow> world" where
  "removeBody b w = w\<lparr>bodies := remove1 b (bodies w)\<rparr>"

subsubsection \<open>Broadphase spatial hash\<close>

text \<open>
  The key is the string \<^verbatim>\<open>`${floor x}:${floor y}:${floor z}`\<close>; two keys are the same string
  exactly when the three integers agree. The grid object keeps its keys in the order of
  their first insertion (no key is an array index), which is the order \<^verbatim>\<open>for..in\<close>
  visits them in.
\<close>

type_synonym cell_key = "int \<times> int \<times> int"
type_synonym grid = "(cell_key \<times> ref list) list"

definition grid_key :: "vec3 \<Rightarrow> cell_key" where
  "grid_key p = (\<lfloor>x_of p\<rfloor>, \<lfloor>y_of p\<rfloor>, \<lfloor>z_of p\<rfloor>)"

fun grid_push ::
  "'k \<Rightarrow> ref \<Rightarrow> ('k \<times> ref list) list \<Rightarrow> ('k \<times> ref list) list" where
  "grid_push k b [] = [(k, [b])]"
| "grid_push k b ((k', bs) # g) =
     (if k' = k then (k', bs @ [b]) # g else (k', bs) # grid_push k b g)"

definition build_grid :: "(ref \<Rightarrow> rigid_body) \<Rightarrow> ref list \<Rightarrow> grid" where
  "build_grid h bs = fold (\<lambda>b g. grid_push (grid_key (position (h b))) b g) bs []"

subsubsection \<open>Gravity and integration\<close>

definition step_integrate :: "real \<Rightarrow> ref \<Rightarrow> world \<Rightarrow> world" where
  "step_integrate dt b w =
     w\<lparr>heap := (heap w)
          (b := integrate dt (applyForce (Vec3_mul (gravity w) (mass (heap w b))) (heap w b)))\<rparr>"

subsubsection \<open>Ground and bounds collision\<close>

definition halfSize :: "shape \<Rightarrow> real" where
  "halfSize sh =
     (case sh of Sphere r \<Rightarrow> r | Box s \<Rightarrow> s / 2 | Cylinder r h \<Rightarrow> h / 2 | Compound cs \<Rightarrow> 0)"

fun component :: "axis \<Rightarrow> vec3 \<Rightarrow> real" where
  "component AxisX v = x_of v"
| "component AxisY v = y_of v"
| "component AxisZ v = z_of v"

fun set_component :: "axis \<Rightarrow> real \<Rightarrow> vec3 \<Rightarrow> vec3" where
  "set_component AxisX a v = Vec3 a (y_of v) (z_of v)"
| "set_component AxisY a v = Vec3 (x_of v) a (z_of v)"
| "set_component AxisZ a v = Vec3 (x_of v) (y_of v) a"

fun extent :: "axis \<Rightarrow> extents \<Rightarrow> real" where
  "extent AxisX e = extent_x e"
| "extent AxisY e = extent_y e"
| "extent AxisZ e = extent_z e"

definition ground_collision :: "real \<Rightarrow> rigid_body \<Rightarrow> rigid_body" where
  "ground_collision hs b =
     (if y_of (position b) < hs
      then b\<lparr> position := set_component AxisY hs (position b),
                velocity := Vec3 (x_of (velocity b) * (1 - friction b))
                                 (- y_of (velocity b) * restitution b)
                                 (z_of (velocity b) * (1 - friction b)) \<rparr>
      else b)"

definition wall_low :: "axis \<Rightarrow> extents \<Rightarrow> real \<Rightarrow> rigid_body \<Rightarrow> rigid_body" where
  "wall_low ax bd hs b =
     (if component ax (position b) < - extent ax bd / 2 + hs
      then b\<lparr> position := set_component ax (- extent ax bd / 2 + hs) (position b),
                velocity := set_component ax (- component ax (velocity b) * restitution b)
                              (velocity b) \<rparr>
      else b)"

definition wall_high :: "axis \<Rightarrow> extents \<Rightarrow> real \<Rightarrow> rigid_body \<Rightarrow> rigid_body" where
  "wall_high ax bd hs b =
     (if component ax (position b) > extent ax bd / 2 - hs
      then b\<lparr> position := set_component ax (extent ax bd / 2 - hs) (position b),
                velocity := set_component ax (- component ax (velocity b) * restitution b)
                              (velocity b) \<rparr>
      else b)"

definition ceiling_collision :: "extents \<Rightarrow> real \<Rightarrow> rigid_body \<Rightarrow> rigid_body" where
  "ceiling_collision bd hs b =
     (if y_of (position b) > extent_y bd - hs
      then b\<lparr> position := set_component AxisY (extent_y bd - hs) (position b),
                velocity := set_component AxisY (- y_of (velocity b) * restitution b)
                              (velocity b) \<rparr>
      else b)"

text \<open>The body of the second loop of \<^verbatim>\<open>update\<close>, for one body.\<close>

definition resolve_bounds :: "extents \<Rightarrow> rigid_body \<Rightarrow> rigid_body" where
  "resolve_bounds bd b =
     (let hs = halfSize (shape b);
          b1 = ground_collision hs b;
          b2 = fold (\<lambda>ax c. wall_high ax bd hs (wall_low ax bd hs c)) [AxisX, AxisZ] b1
      in ceiling_collision bd hs b2)"

definition step_bounds :: "ref \<Rightarrow> world \<Rightarrow> world" where
  "step_bounds b w = w\<lparr>heap := (heap w)(b := resolve_bounds (bounds w) (heap w b))\<rparr>"

subsubsection \<open>Object collisions\<close>

text \<open>
  A call on two bodies that are not both boxes (both cylinders) compares with
  \<^verbatim>\<open>undefined\<close> sizes, which is false; \<^verbatim>\<open>update\<close> calls each only after testing the tags.
\<close>

definition boxCollides :: "rigid_body \<Rightarrow> rigid_body \<Rightarrow> bool" where
  "boxCollides a b =
     (case (shape a, shape b) of
        (Box sa, Box sb) \<Rightarrow>
          \<bar>x_of (position a) - x_of (position b)\<bar> < (sa + sb) / 2 \<and>
          \<bar>y_of (position a) - y_of (position b)\<bar> < (sa + sb) / 2 \<and>
          \<bar>z_of (position a) - z_of (position b)\<bar> < (sa + sb) / 2
      | _ \<Rightarrow> False)"

definition cylinderCollides :: "rigid_body \<Rightarrow> rigid_body \<Rightarrow> bool" where
  "cylinderCollides a b =
     (case (shape a, shape b) of
        (Cylinder ra ha, Cylinder rb hb) \<Rightarrow>
          (let dx = x_of (position a) - x_of (position b);
               dz = z_of (position a) - z_of (position b);
               dist = sqrt (dx * dx + dz * dz);
               minDist = ra + rb;
               yOverlap = (\<bar>y_of (position a) - y_of (position b)\<bar> < (ha + hb) / 2)
           in dist < minDist \<and> yOverlap)
      | _ \<Rightarrow> False)"

text \<open>
  The impulse response, which the source writes out three times: along the normal
  \<open>nrm\<close>, with the positional correction \<open>corr\<close> (the penetration for spheres, the
  constant 0.05 for boxes and cylinders). The four assignments happen in the source's
  order, each reading the heap the previous one left, so that the model is right also
  when \<open>a\<close> and \<open>b\<close> are one object.
\<close>

definition respond ::
  "vec3 \<Rightarrow> real \<Rightarrow> ref \<Rightarrow> ref \<Rightarrow> (ref \<Rightarrow> rigid_body) \<Rightarrow> (ref \<Rightarrow> rigid_body)" where
  "respond nrm corr a b h0 =
     (let relVel = Vec3_dot (Vec3_sub (velocity (h0 a)) (velocity (h0 b))) nrm;
          impulse = (- (1 + min (restitution (h0 a)) (restitution (h0 b))) * relVel) /
                    (invMass (h0 a) + invMass (h0 b));
          impulseVec = Vec3_mul nrm impulse;
          h1 = h0(a := (h0 a)\<lparr>velocity :=
                 Vec3_add (velocity (h0 a)) (Vec3_mul impulseVec (invMass (h0 a)))\<rparr>);
          h2 = h1(b := (h1 b)\<lparr>velocity :=
                 Vec3_sub (velocity (h1 b)) (Vec3_mul impulseVec (invMass (h1 b)))\<rparr>);
          h3 = h2(a := (h2 a)\<lparr>position :=
                 Vec3_add (position (h2 a))
                   (Vec3_mul nrm (corr * invMass (h2 a) / (invMass (h2 a) + invMass (h2 b))))\<rparr>);
          h4 = h3(b := (h3 b)\<lparr>position :=
                 Vec3_sub (position (h3 b))
                   (Vec3_mul nrm (corr * invMass (h3 b) / (invMass (h3 a) + invMass (h3 b))))\<rparr>)
      in h4)"

text \<open>The narrowphase test of a pair: the tags agree and the test of that kind succeeds.\<close>

definition narrow_test :: "rigid_body \<Rightarrow> rigid_body \<Rightarrow> bool" where
  "narrow_test a b =
     (case (shape a, shape b) of
        (Sphere ra, Sphere rb) \<Rightarrow>
          (let d = Vec3_sub (position a) (position b); dist = Vec3_length d; minDist = ra + rb
           in dist < minDist \<and> dist > 0)
      | (Box sa, Box sb) \<Rightarrow> boxCollides a b
      | (Cylinder ra ha, Cylinder rb hb) \<Rightarrow> cylinderCollides a b
      | _ \<Rightarrow> False)"

text \<open>The body of the innermost loop, for the pair \<open>a = cellBodies[i]\<close>, \<open>b = cellBodies[j]\<close>.\<close>

definition collide_pair :: "ref \<Rightarrow> ref \<Rightarrow> world \<Rightarrow> world" where
  "collide_pair a b w =
     (let h = heap w in
      case (shape (h a), shape (h b)) of
        (Sphere ra, Sphere rb) \<Rightarrow>
          (let d = Vec3_sub (position (h a)) (position (h b));
               dist = Vec3_length d;
               minDist = ra + rb
           in if dist < minDist \<and> dist > 0
              then w\<lparr> heap := respond (Vec3_normalize d) (minDist - dist) a b h,
                        collisionCount := collisionCount w + 1 \<rparr>
              else w)
      | (Box sa, Box sb) \<Rightarrow>
          (if boxCollides (h a) (h b)
           then w\<lparr> heap := respond (Vec3_normalize (Vec3_sub (position (h a)) (position (h b))))
                                0.05 a b h,
                     collisionCount := collisionCount w + 1 \<rparr>
           else w)
      | (Cylinder ra ha, Cylinder rb hb) \<Rightarrow>
          (if cylinderCollides (h a) (h b)
           then w\<lparr> heap := respond (Vec3_normalize (Vec3_sub (position (h a)) (position (h b))))
                                0.05 a b h,
                     collisionCount := collisionCount w + 1 \<rparr>
           else w)
      | _ \<Rightarrow> w)"

text \<open>The loops over \<open>j\<close>, over \<open>i\<close> and over the cells.\<close>

fun pairs_from :: "ref \<Rightarrow> ref list \<Rightarrow> world \<Rightarrow> world" where
  "pairs_from a [] w = w"
| "pairs_from a (b # bs) w = pairs_from a bs (collide_pair a b w)"

fun cell_pairs :: "ref list \<Rightarrow> world \<Rightarrow> world" where
  "cell_pairs [] w = w"
| "cell_pairs (a # bs) w = cell_pairs bs (pairs_from a bs w)"

fun object_collisions :: "grid \<Rightarrow> world \<Rightarrow> world" where
  "object_collisions [] w = w"
| "object_collisions ((k, cellBodies) # g) w = object_collisions g (cell_pairs cellBodies w)"

subsubsection \<open>update\<close>

text \<open>The first and the second loop over \<^verbatim>\<open>this.bodies\<close> after the grid is built.\<close>

definition integrate_all :: "real \<Rightarrow> world \<Rightarrow> world" where
  "integrate_all dt w = fold (step_integrate dt) (bodies w) w"

definition bounds_all :: "world \<Rightarrow> world" where
  "bounds_all w = fold step_bounds (bodies w) w"

definition update :: "real \<Rightarrow> world \<Rightarrow> world" where
  "update dt w0 =
     (let w1 = w0\<lparr>collisionCount := 0\<rparr>;
          grid = build_grid (heap w1) (bodies w1);
          w2 = integrate_all dt w1;
          w3 = bounds_all w2
      in object_collisions grid w3)"

subsection \<open>Scene save and import\<close>

text \<open>
  The handlers of the save button and of the import input, for one body: the object that
  \<^verbatim>\<open>world.bodies.map\<close> builds for a body, and the body that the import loop builds from
  one parsed object. A property whose value is \<^verbatim>\<open>undefined\<close> is left out by
  \<^verbatim>\<open>JSON.stringify\<close> and reads as \<^verbatim>\<open>undefined\<close> again after \<^verbatim>\<open>JSON.parse\<close>; finite
  numbers are written and read back unchanged. So the parsed object is the saved one, with
  \<open>None\<close> for a property that is \<^verbatim>\<open>undefined\<close>.
\<close>

record scene_record =
  sr_type :: nat
  sr_position :: "real list"
  sr_velocity :: "real list"
  sr_angularVelocity :: "real list"
  sr_mass :: real
  sr_friction :: real
  sr_restitution :: real
  sr_size :: "real option"
  sr_height :: "real option"
  sr_color :: nat

text \<open>The reads \<^verbatim>\<open>b.shape.size\<close>, \<^verbatim>\<open>b.shape.radius\<close> and \<^verbatim>\<open>b.shape.height\<close> on any shape.\<close>

fun shape_size :: "shape \<Rightarrow> real option" where
  "shape_size (Box s) = Some s"
| "shape_size _ = None"

fun shape_radius :: "shape \<Rightarrow> real option" where
  "shape_radius (Sphere r) = Some r"
| "shape_radius (Cylinder r h) = Some r"
| "shape_radius _ = None"

fun shape_height :: "shape \<Rightarrow> real option" where
  "shape_height (Cylinder r h) = Some h"
| "shape_height _ = None"

text \<open>
  \<^verbatim>\<open>a || b\<close> on values that are a number or \<^verbatim>\<open>undefined\<close>: the second operand when the
  first is \<^verbatim>\<open>undefined\<close> or zero.
\<close>

definition js_or :: "real option \<Rightarrow> real option \<Rightarrow> real option" where
  "js_or a b = (case a of None \<Rightarrow> b | Some x \<Rightarrow> if x = 0 then b else Some x)"

text \<open>
  \<^verbatim>\<open>[v.x, v.y, v.z]\<close>, and \<^verbatim>\<open>new Vec3(...xs)\<close>: a missing argument takes the default 0,
  arguments after the third are ignored.
\<close>

definition Vec3_array :: "vec3 \<Rightarrow> real list" where
  "Vec3_array v = [x_of v, y_of v, z_of v]"

definition Vec3_spread :: "real list \<Rightarrow> vec3" where
  "Vec3_spread xs =
     Vec3 (case xs of [] \<Rightarrow> 0 | a # _ \<Rightarrow> a)
          (case drop 1 xs of [] \<Rightarrow> 0 | a # _ \<Rightarrow> a)
          (case drop 2 xs of [] \<Rightarrow> 0 | a # _ \<Rightarrow> a)"

text \<open>
  Reading the colour \<^verbatim>\<open>b.mesh.material.color\<close> of a body without mesh throws a
  \<^verbatim>\<open>TypeError\<close>.
\<close>

definition save_body :: "rigid_body \<Rightarrow> error + scene_record" where
  "save_body b =
     (case mesh b of
        None \<Rightarrow> Inl TypeError
      | Some me \<Rightarrow>
          Inr \<lparr> sr_type = shape_type (shape b),
                sr_position = Vec3_array (position b),
                sr_velocity = Vec3_array (velocity b),
                sr_angularVelocity = Vec3_array (angularVelocity b),
                sr_mass = mass b,
                sr_friction = friction b,
                sr_restitution = restitution b,
                sr_size = js_or (shape_size (shape b)) (shape_radius (shape b)),
                sr_height = shape_height (shape b),
                sr_color = mesh_color me \<rparr>)"

text \<open>
  The shape that the import builds. For the tags 0 and 1 a missing \<^verbatim>\<open>size\<close> would give a
  shape whose size is \<^verbatim>\<open>undefined\<close>, which is not a number of this model: the result
  is \<open>None\<close> there. For another tag than 0, 1 and 2 no mesh is built and
  \<^verbatim>\<open>mesh.position.set\<close> throws a \<^verbatim>\<open>TypeError\<close>.
\<close>

definition import_shape :: "scene_record \<Rightarrow> (error + shape) option" where
  "import_shape obj =
     (if sr_type obj = 0 then map_option SphereShape (sr_size obj)
      else if sr_type obj = 1 then map_option BoxShape (sr_size obj)
      else if sr_type obj = 2
        then Some (CylinderShape (sr_size obj) (js_or (sr_height obj) (Some 2)))
      else Some (Inl TypeError))"

definition import_body :: "scene_record \<Rightarrow> (error + rigid_body) option" where
  "import_body obj =
     map_option (map_sum id
       (\<lambda>sh. (RigidBody (Vec3_spread (sr_position obj)) sh (sr_mass obj)
                 (Some \<lparr> mesh_position = Vec3_spread (sr_position obj),
                         mesh_rotations = [],
                         mesh_color = sr_color obj \<rparr>))
              \<lparr> velocity := Vec3_spread (sr_velocity obj),
                angularVelocity := Vec3_spread (sr_angularVelocity obj),
                friction := sr_friction obj,
                restitution := sr_restitution obj \<rparr>))
       (import_shape obj)"

text \<open>Save a body, then import what was saved.\<close>

definition roundtrip :: "rigid_body \<Rightarrow> (error + rigid_body) option" where
  "roundtrip b = (case save_body b of Inl e \<Rightarrow> Some (Inl e) | Inr obj \<Rightarrow> import_body obj)"

subsection \<open>Notions used to state the properties\<close>

text \<open>
  What no step of \<^verbatim>\<open>update\<close> assigns in a body: its shape, its mass and inverse mass,
  its material coefficients, its inertia and its orientation.
\<close>

definition body_kept :: "rigid_body \<Rightarrow> rigid_body \<Rightarrow> bool" where
  "body_kept b b' =
     (shape b' = shape b \<and> mass b' = mass b \<and> invMass b' = invMass b \<and>
      restitution b' = restitution b \<and> friction b' = friction b \<and>
      inertia b' = inertia b \<and> invInertia b' = invInertia b \<and> orientation b' = orientation b)"

text \<open>
  The frame of a step: the array \<^verbatim>\<open>bodies\<close>, the gravity and the bounds are as before,
  every body kept what no step assigns, and the bodies outside \<open>S\<close> are untouched.
\<close>

definition frame :: "ref set \<Rightarrow> world \<Rightarrow> world \<Rightarrow> bool" where
  "frame S w w' =
     (bodies w' = bodies w \<and> gravity w' = gravity w \<and> bounds w' = bounds w \<and>
      (\<forall>r. body_kept (heap w r) (heap w' r)) \<and>
      (\<forall>r. r \<notin> S \<longrightarrow> heap w' r = heap w r))"

text \<open>Every body of a cell of the grid is one of \<open>S\<close> and has the key of its cell.\<close>

definition grid_ok :: "(ref \<Rightarrow> 'k) \<Rightarrow> ref set \<Rightarrow> ('k \<times> ref list) list \<Rightarrow> bool" where
  "grid_ok kf S g = (\<forall>kc \<in> set g. \<forall>b \<in> set (snd kc). b \<in> S \<and> kf b = fst kc)"

text \<open>The array stored under a key of the grid, empty when the key is absent.\<close>

definition cell_of :: "('k \<times> ref list) list \<Rightarrow> 'k \<Rightarrow> ref list" where
  "cell_of g k = (case map_of g k of None \<Rightarrow> [] | Some c \<Rightarrow> c)"

text \<open>
  The pairs that the narrowphase resolved, in the order of the three loops: a pair is
  listed when its test succeeds on the heap as it is when the loops reach the pair.
\<close>

fun resolved_from :: "ref \<Rightarrow> ref list \<Rightarrow> world \<Rightarrow> (ref \<times> ref) list" where
  "resolved_from a [] w = []"
| "resolved_from a (b # bs) w =
     (if narrow_test (heap w a) (heap w b) then [(a, b)] else []) @
     resolved_from a bs (collide_pair a b w)"

fun resolved_cell :: "ref list \<Rightarrow> world \<Rightarrow> (ref \<times> ref) list" where
  "resolved_cell [] w = []"
| "resolved_cell (a # bs) w = resolved_from a bs w @ resolved_cell bs (pairs_from a bs w)"

fun resolved_grid :: "grid \<Rightarrow> world \<Rightarrow> (ref \<times> ref) list" where
  "resolved_grid [] w = []"
| "resolved_grid ((k, cellBodies) # g) w =
     resolved_cell cellBodies w @ resolved_grid g (cell_pairs cellBodies w)"

definition resolved_pairs :: "real \<Rightarrow> world \<Rightarrow> (ref \<times> ref) list" where
  "resolved_pairs dt w =
     resolved_grid (build_grid (heap w) (bodies w))
       (bounds_all (integrate_all dt (w\<lparr>collisionCount := 0\<rparr>)))"

text \<open>
  A body lies inside the bounds when no test of the boundary step holds for it.
\<close>

definition in_bounds :: "extents \<Rightarrow> rigid_body \<Rightarrow> bool" where
  "in_bounds bd b =
     (let hs = halfSize (shape b); p = position b in
      hs \<le> y_of p \<and> y_of p \<le> extent_y bd - hs \<and>
      - extent_x bd / 2 + hs \<le> x_of p \<and> x_of p \<le> extent_x bd / 2 - hs \<and>
      - extent_z bd / 2 + hs \<le> z_of p \<and> z_of p \<le> extent_z bd / 2 - hs)"


text \<open>
  The pairs that the two inner loops of the narrowphase visit in one cell: each entry of
  the array with each later entry, \<^verbatim>\<open>i < j\<close>. The candidate pairs of a grid are those
  of its cells, cell after cell.
\<close>

fun pairs_of :: "'a list \<Rightarrow> ('a \<times> 'a) list" where
  "pairs_of [] = []"
| "pairs_of (a # bs) = map (Pair a) bs @ pairs_of bs"

definition candidate_pairs :: "('k \<times> ref list) list \<Rightarrow> (ref \<times> ref) list" where
  "candidate_pairs g = concat (map (\<lambda>kc. pairs_of (snd kc)) g)"

subsection \<open>Scenes used as concrete instances\<close>

text \<open>
  Two spheres of radius 1/2, mass 2 and restitution 1 in the cell (0,1,0), approaching
  each other along the x axis with the velocities (-3,0,0) and (3,0,0).
\<close>

definition head_on_a :: rigid_body where
  "head_on_a = (RigidBody (Vec3 (4 / 5) (3 / 2) (1 / 2)) (Sphere (1 / 2)) 2 None)
                 \<lparr>restitution := 1, velocity := Vec3 (- 3) 0 0\<rparr>"

definition head_on_b :: rigid_body where
  "head_on_b = (RigidBody (Vec3 (1 / 5) (3 / 2) (1 / 2)) (Sphere (1 / 2)) 2 None)
                 \<lparr>restitution := 1, velocity := Vec3 3 0 0\<rparr>"

definition head_on_world :: world where
  "head_on_world = addBody 1 (addBody 0 (PhysicsWorld ((\<lambda>r. head_on_a)(1 := head_on_b))))"

text \<open>
  Two spheres of radius 1/2 that start a step in the neighbouring cells (1,5,0) and
  (0,5,0); the first moves towards the second with the velocity (-3,0,0).
\<close>

definition crossing_a :: rigid_body where
  "crossing_a = (RigidBody (Vec3 (11 / 10) (11 / 2) (1 / 2)) (Sphere (1 / 2)) 1 None)
                  \<lparr>velocity := Vec3 (- 3) 0 0\<rparr>"

definition crossing_b :: rigid_body where
  "crossing_b = RigidBody (Vec3 (1 / 10) (11 / 2) (1 / 2)) (Sphere (1 / 2)) 1 None"

definition crossing_world :: world where
  "crossing_world = addBody 1 (addBody 0 (PhysicsWorld ((\<lambda>r. crossing_a)(1 := crossing_b))))"

text \<open>A sphere of radius 11, wider than the bounds of 20, and a small one beyond the x wall.\<close>

definition oversize_sphere :: rigid_body where
  "oversize_sphere = (RigidBody (Vec3 0 5 0) (Sphere 11) 1 None)\<lparr>velocity := Vec3 1 1 1\<rparr>"

definition small_sphere :: rigid_body where
  "small_sphere = (RigidBody (Vec3 12 (1 / 5) 0) (Sphere (1 / 2)) 1 None)
                    \<lparr>velocity := Vec3 1 (- 2) 3\<rparr>"

text \<open>Two cylinders with a mesh of the colour 0x2ecc40, the first one of height 0.\<close>

definition flat_cylinder :: rigid_body where
  "flat_cylinder =
     RigidBody (Vec3 0 5 0) (Cylinder 1 0) 2
       (Some \<lparr>mesh_position = Vec3 0 5 0, mesh_rotations = [], mesh_color = 3066944\<rparr>)"


text \<open>
  The two spheres of the head-on scene and a box in the cell (5,1,0), in a world whose
  gravity has been set to zero.
\<close>

definition bystander :: rigid_body where
  "bystander = RigidBody (Vec3 (11 / 2) (3 / 2) (1 / 2)) (Box 1) (3 / 2) None"

definition drift_world :: world where
  "drift_world =
     (addBody 2 (addBody 1 (addBody 0
        (PhysicsWorld ((\<lambda>r. head_on_a)(1 := head_on_b, 2 := bystander))))))
     \<lparr>gravity := Vec3 0 0 0\<rparr>"




section \<open>Properties\<close>

subsection \<open>Vec3.normalize\<close>

lemma Vec3_length_zero_iff: "Vec3_length u = 0 \<longleftrightarrow> u = Vec3 0 0 0"
proof (cases u)
  case (Vec3 a b c)
  have "a * a + b * b + c * c = 0 \<longleftrightarrow> a = 0 \<and> b = 0 \<and> c = 0"
  proof
    assume h: "a * a + b * b + c * c = 0"
    have "0 \<le> a * a" "0 \<le> b * b" "0 \<le> c * c" by simp_all
    with h have "a * a = 0" "b * b = 0" "c * c = 0" by linarith+
    then show "a = 0 \<and> b = 0 \<and> c = 0" by simp
  qed simp
  with Vec3 show ?thesis by (simp add: Vec3_length_def)
qed

text \<open>
  Claim C7. \<^verbatim>\<open>Vec3.normalize\<close> returns a vector for every vector (it has no failing
  branch): the zero vector when the length is zero, which happens exactly for the zero
  vector, and otherwise each component divided by the length, a vector of length one.
\<close>

theorem C7_normalize_total:
  "Vec3_normalize u =
     (if Vec3_length u = 0 then Vec3 0 0 0
      else Vec3 (x_of u / Vec3_length u) (y_of u / Vec3_length u) (z_of u / Vec3_length u))
   \<and> (Vec3_length u = 0 \<longleftrightarrow> u = Vec3 0 0 0)
   \<and> Vec3_length (Vec3_normalize u) = (if u = Vec3 0 0 0 then 0 else 1)"
proof -
  have shape_eq: "Vec3_normalize u =
     (if Vec3_length u = 0 then Vec3 0 0 0
      else Vec3 (x_of u / Vec3_length u) (y_of u / Vec3_length u) (z_of u / Vec3_length u))"
    by (simp add: Vec3_normalize_def Vec3_mul_def Let_def)
  have len: "Vec3_length (Vec3_normalize u) = (if u = Vec3 0 0 0 then 0 else 1)"
  proof (cases "u = Vec3 0 0 0")
    case True
    then show ?thesis by (simp add: Vec3_normalize_def Vec3_length_def)
  next
    case False
    then have nz: "Vec3_length u \<noteq> 0" by (simp add: Vec3_length_zero_iff)
    define l where "l = Vec3_length u"
    have l_pos: "0 < l"
      using nz unfolding l_def Vec3_length_def by (simp add: less_le)
    have l_sq: "l * l = x_of u * x_of u + y_of u * y_of u + z_of u * z_of u"
      unfolding l_def Vec3_length_def
      by (simp add: add_nonneg_nonneg)
    have "x_of u / l * (x_of u / l) + y_of u / l * (y_of u / l) + z_of u / l * (z_of u / l)
          = (x_of u * x_of u + y_of u * y_of u + z_of u * z_of u) / (l * l)"
      by (simp add: add_divide_distrib)
    also have "\<dots> = 1" using l_pos by (simp add: l_sq [symmetric])
    finally have "Vec3_length (Vec3 (x_of u / l) (y_of u / l) (z_of u / l)) = 1"
      by (simp add: Vec3_length_def)
    with False nz show ?thesis
      using shape_eq by (simp add: l_def)
  qed
  from shape_eq len show ?thesis by (simp add: Vec3_length_zero_iff)
qed

subsection \<open>RigidBody.integrate\<close>

text \<open>
  Claim C3, as stated: after \<^verbatim>\<open>integrate(dt)\<close> the accumulated force of every body is
  zero, static bodies included. It fails: \<^verbatim>\<open>integrate\<close> returns at once for a body
  with \<open>invMass = 0\<close>, before the reset. A static sphere pushed with the force (1,0,0)
  still carries it after the call.
\<close>

theorem C3_counterexample:
  "force (integrate (1 / 60)
            (applyForce (Vec3 1 0 0) (RigidBody (Vec3 0 5 0) (Sphere 1) 0 None)))
   = Vec3 1 0 0
   \<and> Vec3 1 0 0 \<noteq> Vec3_zero"
  by (simp add: integrate_def applyForce_def RigidBody_def Vec3_add_def Vec3_zero_def)

text \<open>
  Claim C3, amended: for every body with \<open>invMass \<noteq> 0\<close> and every \<open>dt\<close> the force (and the
  torque) is the zero vector after \<^verbatim>\<open>integrate(dt)\<close>; for a body with \<open>invMass = 0\<close> the
  call changes nothing, so the force stays what it was.
\<close>

theorem C3_force_reset:
  "force (integrate dt b) = (if invMass b = 0 then force b else Vec3 0 0 0)
   \<and> torque (integrate dt b) = (if invMass b = 0 then torque b else Vec3 0 0 0)"
  by (simp add: integrate_def Let_def Vec3_zero_def)

text \<open>
  Claim C4. A body constructed with mass zero or negative gets \<open>invMass = 0\<close>; whatever
  velocity it was given afterwards and whatever forces \<^verbatim>\<open>applyForce\<close> accumulated on it,
  \<^verbatim>\<open>integrate(dt)\<close> leaves its position and its velocity (indeed the whole body) as
  they were.
\<close>

theorem C4_static_body_unchanged:
  assumes "m \<le> 0"
  shows "let b = fold applyForce fs ((RigidBody p sh m me)\<lparr>velocity := v\<rparr>)
         in invMass b = 0
            \<and> position (integrate dt b) = position b
            \<and> velocity (integrate dt b) = velocity b
            \<and> integrate dt b = b"
proof -
  have inv: "invMass (fold applyForce fs c) = invMass c" for c
    by (induction fs arbitrary: c) (simp_all add: applyForce_def)
  have "invMass ((RigidBody p sh m me)\<lparr>velocity := v\<rparr>) = 0"
    using assms by (simp add: RigidBody_def)
  then have "invMass (fold applyForce fs ((RigidBody p sh m me)\<lparr>velocity := v\<rparr>)) = 0"
    by (simp add: inv)
  then show ?thesis
    by (simp add: Let_def integrate_def)
qed

theorem C4_static_body_unchanged_witness:
  "(- 1 :: real) \<le> 0
   \<and> position (integrate (1 / 60)
        (fold applyForce [Vec3 0 (- 10) 0, Vec3 3 0 0]
           ((RigidBody (Vec3 0 5 0) (Sphere 1) (- 1) None)\<lparr>velocity := Vec3 1 2 3\<rparr>)))
     = Vec3 0 5 0
   \<and> velocity (integrate (1 / 60)
        (fold applyForce [Vec3 0 (- 10) 0, Vec3 3 0 0]
           ((RigidBody (Vec3 0 5 0) (Sphere 1) (- 1) None)\<lparr>velocity := Vec3 1 2 3\<rparr>)))
     = Vec3 1 2 3"
  using C4_static_body_unchanged
          [where m = "- 1" and dt = "1 / 60" and fs = "[Vec3 0 (- 10) 0, Vec3 3 0 0]"
             and p = "Vec3 0 5 0" and sh = "Sphere 1" and me = None and v = "Vec3 1 2 3"]
  by (simp add: Let_def applyForce_def RigidBody_def Vec3_copy_def)

subsection \<open>Shape construction\<close>

text \<open>
  Claim C6, as stated: a shape constructor called with a non-positive size fails with
  \<^verbatim>\<open>InvalidGeometry\<close>. It fails: the constructors store what they are given and never
  throw. A sphere of radius -1, a box of edge 0, a cylinder of height -2 and a cylinder
  of radius 0 are built.
\<close>

theorem C6_counterexample:
  "SphereShape (- 1) \<noteq> Inl InvalidGeometry
   \<and> BoxShape 0 \<noteq> Inl InvalidGeometry
   \<and> CylinderShape (Some 1) (Some (- 2)) \<noteq> Inl InvalidGeometry
   \<and> CylinderShape (Some 0) (Some 2) \<noteq> Inl InvalidGeometry"
  by (simp add: SphereShape_def BoxShape_def CylinderShape_def)

text \<open>
  Claim C6, amended: the shape constructors accept every size, positive or not, and
  return a shape holding exactly the sizes given; a body built on it keeps that shape,
  and the half-size the boundary step uses is the radius, half the edge or half the height
  as given.
\<close>

theorem C6_constructors_accept_all:
  "SphereShape r = Inr (Sphere r)
   \<and> BoxShape s = Inr (Box s)
   \<and> CylinderShape (Some r) (Some h) = Inr (Cylinder r h)
   \<and> shape (RigidBody p (Sphere r) m me) = Sphere r
   \<and> halfSize (Sphere r) = r \<and> halfSize (Box s) = s / 2 \<and> halfSize (Cylinder r h) = h / 2"
  by (simp add: SphereShape_def BoxShape_def CylinderShape_def RigidBody_def halfSize_def)

subsection \<open>The frame of update\<close>

lemma frame_refl: "frame S w w"
  by (simp add: frame_def body_kept_def)

lemma frame_trans: "frame S w w1 \<Longrightarrow> frame S w1 w2 \<Longrightarrow> frame S w w2"
  by (simp add: frame_def body_kept_def)

lemma frame_mono: "S \<subseteq> T \<Longrightarrow> frame S w w' \<Longrightarrow> frame T w w'"
  by (auto simp add: frame_def)

lemma body_kept_integrate: "body_kept b (integrate dt (applyForce f b))"
  by (simp add: body_kept_def integrate_def applyForce_def Let_def)

lemma body_kept_trans [trans]: "body_kept b b1 \<Longrightarrow> body_kept b1 b2 \<Longrightarrow> body_kept b b2"
  by (simp add: body_kept_def)

lemma body_kept_ground: "body_kept b (ground_collision hs b)"
  by (simp add: body_kept_def ground_collision_def)

lemma body_kept_wall_low: "body_kept b (wall_low ax bd hs b)"
  by (simp add: body_kept_def wall_low_def)

lemma body_kept_wall_high: "body_kept b (wall_high ax bd hs b)"
  by (simp add: body_kept_def wall_high_def)

lemma body_kept_ceiling: "body_kept b (ceiling_collision bd hs b)"
  by (simp add: body_kept_def ceiling_collision_def)

lemma body_kept_resolve_bounds: "body_kept b (resolve_bounds bd b)"
proof -
  define hs where "hs = halfSize (shape b)"
  define b1 where "b1 = ground_collision hs b"
  define b2 where "b2 = wall_high AxisX bd hs (wall_low AxisX bd hs b1)"
  define b3 where "b3 = wall_high AxisZ bd hs (wall_low AxisZ bd hs b2)"
  have r: "resolve_bounds bd b = ceiling_collision bd hs b3"
    by (simp add: resolve_bounds_def Let_def hs_def b1_def b2_def b3_def)
  have "body_kept b b1" unfolding b1_def by (rule body_kept_ground)
  also have "body_kept b1 b2" unfolding b2_def
    by (rule body_kept_trans [OF body_kept_wall_low body_kept_wall_high])
  also have "body_kept b2 b3" unfolding b3_def
    by (rule body_kept_trans [OF body_kept_wall_low body_kept_wall_high])
  also have "body_kept b3 (ceiling_collision bd hs b3)" by (rule body_kept_ceiling)
  finally show ?thesis by (simp add: r)
qed

lemma body_kept_respond: "body_kept (h r) (respond n c a b h r)"
  by (simp add: body_kept_def respond_def Let_def)

lemma respond_other: "r \<noteq> a \<Longrightarrow> r \<noteq> b \<Longrightarrow> respond n c a b h r = h r"
  by (simp add: respond_def Let_def)

lemma frame_step_integrate: "frame {b} w (step_integrate dt b w)"
  by (simp add: frame_def step_integrate_def body_kept_integrate) (simp add: body_kept_def)

lemma frame_step_bounds: "frame {b} w (step_bounds b w)"
  by (simp add: frame_def step_bounds_def body_kept_resolve_bounds) (simp add: body_kept_def)

lemma frame_collide_pair: "frame {a, b} w (collide_pair a b w)"
proof -
  have upd: "frame {a, b} w (w\<lparr>heap := respond n c a b (heap w), collisionCount := k\<rparr>)" for n c k
    by (simp add: frame_def body_kept_respond respond_other)
  show ?thesis
    unfolding collide_pair_def Let_def
    by (simp add: upd frame_refl split: shape.split)
qed

lemma frame_fold:
  assumes "\<And>b v. b \<in> set bs \<Longrightarrow> frame S v (f b v)"
  shows "frame S w (fold f bs w)"
  using assms
proof (induction bs arbitrary: w)
  case Nil
  show ?case by (simp add: frame_refl)
next
  case (Cons b bs)
  have "frame S w (f b w)" by (rule Cons.prems) simp
  moreover have "frame S (f b w) (fold f bs (f b w))"
    by (rule Cons.IH) (simp add: Cons.prems)
  ultimately show ?case by (simp add: frame_trans)
qed

lemma frame_pairs_from: "frame (insert a (set bs)) w (pairs_from a bs w)"
proof (induction bs arbitrary: w)
  case Nil
  show ?case by (simp add: frame_refl)
next
  case (Cons b bs)
  have "frame (insert a (set (b # bs))) w (collide_pair a b w)"
    by (rule frame_mono [OF _ frame_collide_pair]) simp
  moreover have "frame (insert a (set (b # bs))) (collide_pair a b w)
                   (pairs_from a bs (collide_pair a b w))"
    by (rule frame_mono [OF _ Cons.IH]) auto
  ultimately show ?case by (simp add: frame_trans)
qed

lemma frame_cell_pairs: "frame (set c) w (cell_pairs c w)"
proof (induction c arbitrary: w)
  case Nil
  show ?case by (simp add: frame_refl)
next
  case (Cons a bs)
  have "frame (set (a # bs)) w (pairs_from a bs w)"
    using frame_pairs_from [of a bs w] by simp
  moreover have "frame (set (a # bs)) (pairs_from a bs w) (cell_pairs bs (pairs_from a bs w))"
    by (rule frame_mono [OF _ Cons.IH]) auto
  ultimately show ?case by (simp add: frame_trans)
qed

lemma frame_object_collisions:
  assumes "\<forall>kc \<in> set g. set (snd kc) \<subseteq> S"
  shows "frame S w (object_collisions g w)"
  using assms
proof (induction g arbitrary: w)
  case Nil
  show ?case by (simp add: frame_refl)
next
  case (Cons kc g)
  obtain k c where kc: "kc = (k, c)" by (cases kc)
  have "set c \<subseteq> S" using Cons.prems kc by simp
  then have "frame S w (cell_pairs c w)"
    by (rule frame_mono [OF _ frame_cell_pairs])
  moreover have "frame S (cell_pairs c w) (object_collisions g (cell_pairs c w))"
    using Cons.prems by (intro Cons.IH) simp
  ultimately show ?case by (simp add: kc frame_trans)
qed

lemma grid_push_ok:
  "grid_ok kf S g \<Longrightarrow> b \<in> S \<Longrightarrow> kf b = k \<Longrightarrow> grid_ok kf S (grid_push k b g)"
proof (induction g)
  case Nil
  then show ?case by (simp add: grid_ok_def)
next
  case (Cons kc g)
  obtain k' c' where kc: "kc = (k', c')" by (cases kc)
  have tl: "grid_ok kf S g" and hd: "\<forall>r \<in> set c'. r \<in> S \<and> kf r = k'"
    using Cons.prems(1) by (simp_all add: grid_ok_def kc)
  show ?case
  proof (cases "k' = k")
    case True
    have "grid_push k b (kc # g) = (k', c' @ [b]) # g" by (simp add: kc True)
    then show ?thesis
      using tl hd Cons.prems(2,3) True by (simp add: grid_ok_def)
  next
    case False
    have "grid_push k b (kc # g) = (k', c') # grid_push k b g" by (simp add: kc False)
    moreover have "grid_ok kf S (grid_push k b g)" using tl Cons.prems(2,3) by (rule Cons.IH)
    ultimately show ?thesis
      using hd by (simp add: grid_ok_def)
  qed
qed

lemma fold_grid_ok:
  "grid_ok kf S g \<Longrightarrow> set bs \<subseteq> S \<Longrightarrow> grid_ok kf S (fold (\<lambda>b g. grid_push (kf b) b g) bs g)"
  by (induction bs arbitrary: g) (simp_all add: grid_push_ok)

lemma build_grid_ok: "grid_ok (\<lambda>b. grid_key (position (h b))) (set bs) (build_grid h bs)"
  unfolding build_grid_def by (rule fold_grid_ok) (simp_all add: grid_ok_def)

lemma frame_integrate_all: "frame (set (bodies w)) w (integrate_all dt w)"
  unfolding integrate_all_def
  by (rule frame_fold) (rule frame_mono [OF _ frame_step_integrate], simp)

lemma frame_bounds_all: "frame (set (bodies w)) w (bounds_all w)"
  unfolding bounds_all_def
  by (rule frame_fold) (rule frame_mono [OF _ frame_step_bounds], simp)

lemma frame_bodies: "frame S w w' \<Longrightarrow> bodies w' = bodies w"
  by (simp add: frame_def)

lemma frame_update: "frame (set (bodies w)) w (update dt w)"
proof -
  let ?S = "set (bodies w)"
  define w1 where "w1 = w\<lparr>collisionCount := 0\<rparr>"
  define w2 where "w2 = integrate_all dt w1"
  define w3 where "w3 = bounds_all w2"
  have f1: "frame ?S w w1" by (simp add: w1_def frame_def body_kept_def)
  have f2: "frame ?S w1 w2"
    using frame_integrate_all [of w1 dt] by (simp add: w2_def w1_def)
  have b2: "bodies w2 = bodies w" using f2 by (simp add: frame_def w1_def)
  have f3: "frame ?S w2 w3"
    using frame_bounds_all [of w2] by (simp add: w3_def b2)
  have f4: "frame ?S w3 (object_collisions (build_grid (heap w1) (bodies w1)) w3)"
    using build_grid_ok [of "heap w1" "bodies w1"]
    by (intro frame_object_collisions) (auto simp add: grid_ok_def w1_def)
  have "update dt w = object_collisions (build_grid (heap w1) (bodies w1)) w3"
    by (simp add: update_def Let_def w1_def w2_def w3_def)
  with f1 f2 f3 f4 show ?thesis
    by (metis frame_trans)
qed

lemma frame_bounds_integrate: "frame (set (bodies w)) w (bounds_all (integrate_all dt w))"
proof -
  have f: "frame (set (bodies w)) w (integrate_all dt w)" by (rule frame_integrate_all)
  then have "frame (set (bodies w)) (integrate_all dt w) (bounds_all (integrate_all dt w))"
    using frame_bounds_all [of "integrate_all dt w"] by (simp add: frame_bodies)
  with f show ?thesis by (rule frame_trans)
qed

subsection \<open>Ground and bounds collision\<close>

lemma ground_collision_position:
  "position (ground_collision hs b) =
     set_component AxisY (max hs (y_of (position b))) (position b)"
  by (cases "position b") (simp add: ground_collision_def max_def)

lemma wall_low_position:
  "position (wall_low ax bd hs b) =
     set_component ax (max (- extent ax bd / 2 + hs) (component ax (position b))) (position b)"
  by (cases "position b"; cases ax) (simp_all add: wall_low_def max_def)

lemma wall_high_position:
  "position (wall_high ax bd hs b) =
     set_component ax (min (extent ax bd / 2 - hs) (component ax (position b))) (position b)"
  by (cases "position b"; cases ax) (simp_all add: wall_high_def min_def)

lemma ceiling_collision_position:
  "position (ceiling_collision bd hs b) =
     set_component AxisY (min (extent_y bd - hs) (y_of (position b))) (position b)"
  by (cases "position b") (simp add: ceiling_collision_def min_def)

lemma resolve_bounds_shape: "shape (resolve_bounds bd b) = shape b"
  using body_kept_resolve_bounds [of b bd] by (simp add: body_kept_def)

text \<open>The boundary step clamps each coordinate: first from below, then from above.\<close>

lemma resolve_bounds_position:
  "position (resolve_bounds bd b) =
     (let hs = halfSize (shape b); p = position b in
      Vec3 (min (extent_x bd / 2 - hs) (max (- extent_x bd / 2 + hs) (x_of p)))
           (min (extent_y bd - hs) (max hs (y_of p)))
           (min (extent_z bd / 2 - hs) (max (- extent_z bd / 2 + hs) (z_of p))))"
  by (simp add: resolve_bounds_def Let_def ceiling_collision_position wall_high_position
      wall_low_position ground_collision_position)

lemma ground_collision_id: "hs \<le> y_of (position b) \<Longrightarrow> ground_collision hs b = b"
  by (simp add: ground_collision_def)

lemma wall_low_id:
  "- extent ax bd / 2 + hs \<le> component ax (position b) \<Longrightarrow> wall_low ax bd hs b = b"
  by (simp add: wall_low_def)

lemma wall_high_id:
  "component ax (position b) \<le> extent ax bd / 2 - hs \<Longrightarrow> wall_high ax bd hs b = b"
  by (simp add: wall_high_def)

lemma ceiling_collision_id:
  "y_of (position b) \<le> extent_y bd - hs \<Longrightarrow> ceiling_collision bd hs b = b"
  by (simp add: ceiling_collision_def)

lemma resolve_bounds_id: "in_bounds bd b \<Longrightarrow> resolve_bounds bd b = b"
  by (simp add: in_bounds_def resolve_bounds_def Let_def ground_collision_id wall_low_id
      wall_high_id ceiling_collision_id)

lemma resolve_bounds_in:
  assumes "2 * halfSize (shape b) \<le> extent_x bd" "2 * halfSize (shape b) \<le> extent_y bd"
    "2 * halfSize (shape b) \<le> extent_z bd"
  shows "in_bounds bd (resolve_bounds bd b)"
  using assms
  by (simp add: in_bounds_def resolve_bounds_shape resolve_bounds_position Let_def)

lemma resolve_bounds_unfold:
  "resolve_bounds bd b =
     ceiling_collision bd (halfSize (shape b))
       (wall_high AxisZ bd (halfSize (shape b))
         (wall_low AxisZ bd (halfSize (shape b))
           (wall_high AxisX bd (halfSize (shape b))
             (wall_low AxisX bd (halfSize (shape b))
               (ground_collision (halfSize (shape b)) b)))))"
  by (simp add: resolve_bounds_def Let_def)

lemma oversize_first:
  "resolve_bounds (Extents 20 20 20) oversize_sphere =
     oversize_sphere\<lparr>position := Vec3 (- 1) 9 (- 1),
                      velocity := Vec3 (343 / 4000) (49 / 400) (343 / 4000)\<rparr>"
  by (simp add: resolve_bounds_unfold oversize_sphere_def RigidBody_def Vec3_copy_def
      Vec3_zero_def halfSize_def ground_collision_def wall_low_def wall_high_def
      ceiling_collision_def)

lemma oversize_second:
  "resolve_bounds (Extents 20 20 20)
     (oversize_sphere\<lparr>position := Vec3 (- 1) 9 (- 1),
                       velocity := Vec3 (343 / 4000) (49 / 400) (343 / 4000)\<rparr>) =
     oversize_sphere\<lparr>position := Vec3 (- 1) 9 (- 1),
        velocity := Vec3 (117649 / 16000000) (2401 / 160000) (117649 / 16000000)\<rparr>"
  by (simp add: resolve_bounds_unfold oversize_sphere_def RigidBody_def Vec3_copy_def
      Vec3_zero_def halfSize_def ground_collision_def wall_low_def wall_high_def
      ceiling_collision_def)

text \<open>
  Claim C5, as stated: for every body a second application of the boundary step changes
  neither position nor velocity. It fails for a body wider than the bounds: the sphere of
  radius 11 in the bounds of 20 is clamped from below and then from above on every axis,
  so each application reflects its velocity again. The first application leaves the
  velocity (343/4000, 49/400, 343/4000), the second one changes it.
\<close>

theorem C5_counterexample:
  "velocity (resolve_bounds (Extents 20 20 20) oversize_sphere)
     = Vec3 (343 / 4000) (49 / 400) (343 / 4000)
   \<and> velocity (resolve_bounds (Extents 20 20 20)
        (resolve_bounds (Extents 20 20 20) oversize_sphere))
     = Vec3 (117649 / 16000000) (2401 / 160000) (117649 / 16000000)
   \<and> velocity (resolve_bounds (Extents 20 20 20)
        (resolve_bounds (Extents 20 20 20) oversize_sphere))
     \<noteq> velocity (resolve_bounds (Extents 20 20 20) oversize_sphere)"
  by (simp add: oversize_first oversize_second)

text \<open>
  Claim C5, amended: a second application of the boundary step never changes the
  position; and for every body that fits into the bounds (its half-size is at most half
  of each extent) the body lies inside the bounds after one application, so that no test
  holds again and the second application changes nothing, the velocity included.
\<close>

theorem C5_bounds_idempotent:
  "position (resolve_bounds bd (resolve_bounds bd b)) = position (resolve_bounds bd b)
   \<and> (2 * halfSize (shape b) \<le> extent_x bd \<and> 2 * halfSize (shape b) \<le> extent_y bd \<and>
      2 * halfSize (shape b) \<le> extent_z bd \<longrightarrow>
        in_bounds bd (resolve_bounds bd b) \<and>
        resolve_bounds bd (resolve_bounds bd b) = resolve_bounds bd b)"
proof -
  have clamp: "min hi (max lo (min hi (max lo t))) = min hi (max lo t)" for hi lo t :: real
    by (simp add: min_def max_def)
  have "position (resolve_bounds bd (resolve_bounds bd b)) = position (resolve_bounds bd b)"
    by (simp add: resolve_bounds_position [of bd "resolve_bounds bd b"] resolve_bounds_shape
        Let_def clamp)
       (simp add: resolve_bounds_position Let_def clamp)
  then show ?thesis
    by (simp add: resolve_bounds_in resolve_bounds_id)
qed

theorem C5_bounds_idempotent_witness:
  "2 * halfSize (shape small_sphere) \<le> extent_x (Extents 20 20 20)
   \<and> position (resolve_bounds (Extents 20 20 20) small_sphere) = Vec3 (19 / 2) (1 / 2) 0
   \<and> resolve_bounds (Extents 20 20 20) (resolve_bounds (Extents 20 20 20) small_sphere)
     = resolve_bounds (Extents 20 20 20) small_sphere"
  using C5_bounds_idempotent [of "Extents 20 20 20" small_sphere]
  by (simp add: resolve_bounds_position small_sphere_def RigidBody_def Vec3_copy_def
      halfSize_def Let_def)

subsection \<open>The loops over the bodies\<close>

text \<open>Each body of a duplicate-free list is integrated once, from the heap of the start.\<close>

lemma step_integrate_fields:
  "gravity (step_integrate dt b w) = gravity w"
  "heap (step_integrate dt b w) r =
     (if r = b
      then integrate dt (applyForce (Vec3_mul (gravity w) (mass (heap w b))) (heap w b))
      else heap w r)"
  by (simp_all add: step_integrate_def)

lemma step_bounds_fields:
  "bounds (step_bounds b w) = bounds w"
  "heap (step_bounds b w) r = (if r = b then resolve_bounds (bounds w) (heap w b) else heap w r)"
  by (simp_all add: step_bounds_def)

lemma fold_step_integrate_heap:
  "distinct bs \<Longrightarrow>
   heap (fold (step_integrate dt) bs w) r =
     (if r \<in> set bs
      then integrate dt (applyForce (Vec3_mul (gravity w) (mass (heap w r))) (heap w r))
      else heap w r)"
proof (induction bs arbitrary: w)
  case Nil
  show ?case by simp
next
  case (Cons b bs)
  define w' where "w' = step_integrate dt b w"
  have ih: "heap (fold (step_integrate dt) bs w') r =
     (if r \<in> set bs
      then integrate dt (applyForce (Vec3_mul (gravity w') (mass (heap w' r))) (heap w' r))
      else heap w' r)"
    using Cons.prems by (intro Cons.IH) simp
  have nb: "r \<in> set bs \<Longrightarrow> r \<noteq> b" "b \<notin> set bs" using Cons.prems by auto
  show ?case
    using nb by (simp add: w'_def [symmetric] ih) (simp add: w'_def step_integrate_fields)
qed

lemma fold_step_bounds_heap:
  "distinct bs \<Longrightarrow>
   heap (fold step_bounds bs w) r =
     (if r \<in> set bs then resolve_bounds (bounds w) (heap w r) else heap w r)"
proof (induction bs arbitrary: w)
  case Nil
  show ?case by simp
next
  case (Cons b bs)
  define w' where "w' = step_bounds b w"
  have ih: "heap (fold step_bounds bs w') r =
     (if r \<in> set bs then resolve_bounds (bounds w') (heap w' r) else heap w' r)"
    using Cons.prems by (intro Cons.IH) simp
  have nb: "r \<in> set bs \<Longrightarrow> r \<noteq> b" "b \<notin> set bs" using Cons.prems by auto
  show ?case
    using nb by (simp add: w'_def [symmetric] ih) (simp add: w'_def step_bounds_fields)
qed

lemma bounds_integrate_heap:
  assumes "distinct (bodies w)"
  shows "heap (bounds_all (integrate_all dt w)) r =
     (if r \<in> set (bodies w)
      then resolve_bounds (bounds w)
             (integrate dt (applyForce (Vec3_mul (gravity w) (mass (heap w r))) (heap w r)))
      else heap w r)"
proof -
  have f: "frame (set (bodies w)) w (integrate_all dt w)" by (rule frame_integrate_all)
  then have same: "bodies (integrate_all dt w) = bodies w" "bounds (integrate_all dt w) = bounds w"
    by (simp_all add: frame_def)
  show ?thesis
    using assms
    by (simp add: bounds_all_def same fold_step_bounds_heap)
       (simp add: integrate_all_def fold_step_integrate_heap)
qed

subsection \<open>The concrete scenes\<close>

lemma head_on_heap:
  "heap head_on_world 0 = head_on_a" "heap head_on_world (Suc 0) = head_on_b"
  "bodies head_on_world = [0, 1]" "collisionCount head_on_world = 0"
  "gravity head_on_world = Vec3 0 (- 10) 0" "bounds head_on_world = Extents 20 20 20"
  by (simp_all add: head_on_world_def addBody_def PhysicsWorld_def)

lemma head_on_bodies:
  "shape head_on_a = Sphere (1 / 2)" "shape head_on_b = Sphere (1 / 2)"
  "mass head_on_a = 2" "mass head_on_b = 2"
  "invMass head_on_a = 1 / 2" "invMass head_on_b = 1 / 2"
  "restitution head_on_a = 1" "restitution head_on_b = 1"
  "position head_on_a = Vec3 (4 / 5) (3 / 2) (1 / 2)"
  "position head_on_b = Vec3 (1 / 5) (3 / 2) (1 / 2)"
  "velocity head_on_a = Vec3 (- 3) 0 0" "velocity head_on_b = Vec3 3 0 0"
  "force head_on_a = Vec3 0 0 0" "force head_on_b = Vec3 0 0 0"
  by (simp_all add: head_on_a_def head_on_b_def RigidBody_def Vec3_copy_def Vec3_zero_def)

lemma integrate_position:
  "invMass b \<noteq> 0 \<Longrightarrow>
   position (integrate dt (applyForce f b)) =
     Vec3_add (position b)
       (Vec3_mul (Vec3_add (velocity b) (Vec3_mul (Vec3_add (force b) f) (dt * invMass b))) dt)"
  by (simp add: integrate_def applyForce_def Let_def)

lemma head_on_grid:
  "build_grid (heap head_on_world) (bodies head_on_world) = [((0, 1, 0), [0, 1])]"
  by (simp add: build_grid_def head_on_heap head_on_bodies grid_key_def)

lemma head_on_after:
  "position (heap (bounds_all (integrate_all (1 / 60) (head_on_world\<lparr>collisionCount := 0\<rparr>))) 0)
   = Vec3 (3 / 4) (539 / 360) (1 / 2)"
  "position (heap (bounds_all (integrate_all (1 / 60) (head_on_world\<lparr>collisionCount := 0\<rparr>)))
      (Suc 0))
   = Vec3 (1 / 4) (539 / 360) (1 / 2)"
  "shape (heap (bounds_all (integrate_all (1 / 60) (head_on_world\<lparr>collisionCount := 0\<rparr>))) 0)
   = Sphere (1 / 2)"
  "shape (heap (bounds_all (integrate_all (1 / 60) (head_on_world\<lparr>collisionCount := 0\<rparr>)))
      (Suc 0))
   = Sphere (1 / 2)"
  by (simp_all add: bounds_integrate_heap head_on_heap head_on_bodies resolve_bounds_position
      resolve_bounds_shape body_kept_integrate [unfolded body_kept_def] integrate_position
      halfSize_def Vec3_add_def Vec3_mul_def Let_def)

lemma head_on_resolved: "resolved_pairs (1 / 60) head_on_world = [(0, 1)]"
  by (simp add: resolved_pairs_def head_on_grid narrow_test_def head_on_after
      Vec3_sub_def Vec3_length_def real_sqrt_divide Let_def)

lemma integrate_velocity:
  "invMass b \<noteq> 0 \<Longrightarrow>
   velocity (integrate dt (applyForce f b)) =
     Vec3_add (velocity b) (Vec3_mul (Vec3_add (force b) f) (dt * invMass b))"
  by (simp add: integrate_def applyForce_def Let_def)

lemma integrate_shape: "shape (integrate dt (applyForce f b)) = shape b"
  using body_kept_integrate [of b dt f] by (simp add: body_kept_def)

lemma drift_heap:
  "heap drift_world 0 = head_on_a" "heap drift_world (Suc 0) = head_on_b"
  "heap drift_world 2 = bystander" "bodies drift_world = [0, 1, 2]"
  "gravity drift_world = Vec3 0 0 0" "bounds drift_world = Extents 20 20 20"
  by (simp_all add: drift_world_def addBody_def PhysicsWorld_def)

lemma bystander_fields:
  "shape bystander = Box 1" "mass bystander = 3 / 2" "invMass bystander = 2 / 3"
  "position bystander = Vec3 (11 / 2) (3 / 2) (1 / 2)" "velocity bystander = Vec3 0 0 0"
  "force bystander = Vec3 0 0 0"
  by (simp_all add: bystander_def RigidBody_def Vec3_copy_def Vec3_zero_def)

lemma drift_grid:
  "build_grid (heap drift_world) (bodies drift_world) = [((0, 1, 0), [0, 1]), ((5, 1, 0), [2])]"
  by (simp add: build_grid_def drift_heap head_on_bodies bystander_fields grid_key_def)

lemma drift_after:
  "position (heap (bounds_all (integrate_all (1 / 60) (drift_world\<lparr>collisionCount := 0\<rparr>))) 0)
   = Vec3 (3 / 4) (3 / 2) (1 / 2)"
  "position (heap (bounds_all (integrate_all (1 / 60) (drift_world\<lparr>collisionCount := 0\<rparr>)))
      (Suc 0))
   = Vec3 (1 / 4) (3 / 2) (1 / 2)"
  "velocity (heap (bounds_all (integrate_all (1 / 60) (drift_world\<lparr>collisionCount := 0\<rparr>))) 0)
   = Vec3 (- 3) 0 0"
  "velocity (heap (bounds_all (integrate_all (1 / 60) (drift_world\<lparr>collisionCount := 0\<rparr>)))
      (Suc 0))
   = Vec3 3 0 0"
  "shape (heap (bounds_all (integrate_all (1 / 60) (drift_world\<lparr>collisionCount := 0\<rparr>))) 0)
   = Sphere (1 / 2)"
  "shape (heap (bounds_all (integrate_all (1 / 60) (drift_world\<lparr>collisionCount := 0\<rparr>)))
      (Suc 0))
   = Sphere (1 / 2)"
proof -
  let ?bd = "Extents 20 20 20"
  let ?a = "integrate (1 / 60) (applyForce (Vec3_mul (Vec3 0 0 0) 2) head_on_a)"
  let ?b = "integrate (1 / 60) (applyForce (Vec3_mul (Vec3 0 0 0) 2) head_on_b)"
  have fa: "position ?a = Vec3 (3 / 4) (3 / 2) (1 / 2)" "velocity ?a = Vec3 (- 3) 0 0"
      "shape ?a = Sphere (1 / 2)"
    by (simp_all add: integrate_position integrate_velocity integrate_shape head_on_bodies
        Vec3_add_def Vec3_mul_def)
  have fb: "position ?b = Vec3 (1 / 4) (3 / 2) (1 / 2)" "velocity ?b = Vec3 3 0 0"
      "shape ?b = Sphere (1 / 2)"
    by (simp_all add: integrate_position integrate_velocity integrate_shape head_on_bodies
        Vec3_add_def Vec3_mul_def)
  have "in_bounds ?bd ?a" "in_bounds ?bd ?b"
    by (simp_all add: in_bounds_def fa fb halfSize_def)
  then have id: "resolve_bounds ?bd ?a = ?a" "resolve_bounds ?bd ?b = ?b"
    by (simp_all add: resolve_bounds_id)
  have h: "heap (bounds_all (integrate_all (1 / 60) (drift_world\<lparr>collisionCount := 0\<rparr>))) 0 = ?a"
     "heap (bounds_all (integrate_all (1 / 60) (drift_world\<lparr>collisionCount := 0\<rparr>))) (Suc 0) = ?b"
    by (simp_all add: bounds_integrate_heap drift_heap head_on_bodies id)
  show
  "position (heap (bounds_all (integrate_all (1 / 60) (drift_world\<lparr>collisionCount := 0\<rparr>))) 0)
   = Vec3 (3 / 4) (3 / 2) (1 / 2)"
  "position (heap (bounds_all (integrate_all (1 / 60) (drift_world\<lparr>collisionCount := 0\<rparr>)))
      (Suc 0))
   = Vec3 (1 / 4) (3 / 2) (1 / 2)"
  "velocity (heap (bounds_all (integrate_all (1 / 60) (drift_world\<lparr>collisionCount := 0\<rparr>))) 0)
   = Vec3 (- 3) 0 0"
  "velocity (heap (bounds_all (integrate_all (1 / 60) (drift_world\<lparr>collisionCount := 0\<rparr>)))
      (Suc 0))
   = Vec3 3 0 0"
  "shape (heap (bounds_all (integrate_all (1 / 60) (drift_world\<lparr>collisionCount := 0\<rparr>))) 0)
   = Sphere (1 / 2)"
  "shape (heap (bounds_all (integrate_all (1 / 60) (drift_world\<lparr>collisionCount := 0\<rparr>)))
      (Suc 0))
   = Sphere (1 / 2)"
    by (simp_all only: h fa fb)
qed

lemma drift_resolved: "resolved_pairs (1 / 60) drift_world = [(0, 1)]"
  by (simp add: resolved_pairs_def drift_grid narrow_test_def drift_after
      Vec3_sub_def Vec3_length_def real_sqrt_divide Let_def)

lemma crossing_heap:
  "heap crossing_world 0 = crossing_a" "heap crossing_world (Suc 0) = crossing_b"
  "bodies crossing_world = [0, 1]"
  "gravity crossing_world = Vec3 0 (- 10) 0" "bounds crossing_world = Extents 20 20 20"
  by (simp_all add: crossing_world_def addBody_def PhysicsWorld_def)

lemma crossing_bodies:
  "shape crossing_a = Sphere (1 / 2)" "shape crossing_b = Sphere (1 / 2)"
  "mass crossing_a = 1" "mass crossing_b = 1"
  "invMass crossing_a = 1" "invMass crossing_b = 1"
  "position crossing_a = Vec3 (11 / 10) (11 / 2) (1 / 2)"
  "position crossing_b = Vec3 (1 / 10) (11 / 2) (1 / 2)"
  "velocity crossing_a = Vec3 (- 3) 0 0" "velocity crossing_b = Vec3 0 0 0"
  "force crossing_a = Vec3 0 0 0" "force crossing_b = Vec3 0 0 0"
  by (simp_all add: crossing_a_def crossing_b_def RigidBody_def Vec3_copy_def Vec3_zero_def)

lemma crossing_keys:
  "map (\<lambda>b. grid_key (position (heap crossing_world b))) (bodies crossing_world)
   = [(1, 5, 0), (0, 5, 0)]"
  by (simp add: crossing_heap crossing_bodies grid_key_def)

lemma crossing_after:
  "position (heap (bounds_all (integrate_all (1 / 10) (crossing_world\<lparr>collisionCount := 0\<rparr>))) 0)
   = Vec3 (4 / 5) (27 / 5) (1 / 2)"
  "position (heap (bounds_all (integrate_all (1 / 10) (crossing_world\<lparr>collisionCount := 0\<rparr>)))
      (Suc 0))
   = Vec3 (1 / 10) (27 / 5) (1 / 2)"
  "shape (heap (bounds_all (integrate_all (1 / 10) (crossing_world\<lparr>collisionCount := 0\<rparr>))) 0)
   = Sphere (1 / 2)"
  "shape (heap (bounds_all (integrate_all (1 / 10) (crossing_world\<lparr>collisionCount := 0\<rparr>)))
      (Suc 0))
   = Sphere (1 / 2)"
  by (simp_all add: bounds_integrate_heap crossing_heap crossing_bodies resolve_bounds_position
      resolve_bounds_shape body_kept_integrate [unfolded body_kept_def] integrate_position
      halfSize_def Vec3_add_def Vec3_mul_def Let_def)

subsection \<open>The collision counter\<close>

lemma collide_pair_count:
  "collisionCount (collide_pair a b w) =
     collisionCount w + (if narrow_test (heap w a) (heap w b) then 1 else 0)"
  by (simp add: collide_pair_def narrow_test_def Let_def split: shape.split)

lemma pairs_from_count:
  "collisionCount (pairs_from a bs w) = collisionCount w + length (resolved_from a bs w)"
  by (induction bs arbitrary: w) (simp_all add: collide_pair_count)

lemma cell_pairs_count:
  "collisionCount (cell_pairs c w) = collisionCount w + length (resolved_cell c w)"
  by (induction c arbitrary: w) (simp_all add: pairs_from_count)

lemma object_collisions_count:
  "collisionCount (object_collisions g w) = collisionCount w + length (resolved_grid g w)"
  by (induction g w rule: object_collisions.induct) (simp_all add: cell_pairs_count)

lemma fold_step_integrate_count:
  "collisionCount (fold (step_integrate dt) bs w) = collisionCount w"
  by (induction bs arbitrary: w) (simp_all add: step_integrate_def)

lemma fold_step_bounds_count: "collisionCount (fold step_bounds bs w) = collisionCount w"
  by (induction bs arbitrary: w) (simp_all add: step_bounds_def)

lemma update_count: "collisionCount (update dt w) = length (resolved_pairs dt w)"
  by (simp add: update_def resolved_pairs_def Let_def object_collisions_count
      integrate_all_def bounds_all_def fold_step_integrate_count fold_step_bounds_count)

lemma update_forgets_count: "update dt (w\<lparr>collisionCount := c\<rparr>) = update dt w"
  by (simp add: update_def)

lemma narrow_test_same_kind:
  "narrow_test x y \<Longrightarrow> shape_type (shape x) = shape_type (shape y)"
  by (simp add: narrow_test_def split: shape.splits)

lemma frame_shape: "frame S w w' \<Longrightarrow> shape (heap w' r) = shape (heap w r)"
  by (simp add: frame_def body_kept_def)

lemma resolved_from_mem:
  "(x, y) \<in> set (resolved_from a bs w) \<Longrightarrow>
   x = a \<and> y \<in> set bs \<and> shape_type (shape (heap w x)) = shape_type (shape (heap w y))"
proof (induction bs arbitrary: w)
  case Nil
  then show ?case by simp
next
  case (Cons b bs)
  from Cons.prems consider
      (hd) "narrow_test (heap w a) (heap w b)" "x = a" "y = b"
    | (tl) "(x, y) \<in> set (resolved_from a bs (collide_pair a b w))"
    by (auto split: if_splits)
  then show ?case
  proof cases
    case hd
    then show ?thesis by (simp add: narrow_test_same_kind)
  next
    case tl
    from Cons.IH [OF tl] show ?thesis
      by (auto simp add: frame_shape [OF frame_collide_pair])
  qed
qed

lemma resolved_cell_mem:
  "(x, y) \<in> set (resolved_cell c w) \<Longrightarrow>
   x \<in> set c \<and> y \<in> set c \<and> shape_type (shape (heap w x)) = shape_type (shape (heap w y))"
proof (induction c arbitrary: w)
  case Nil
  then show ?case by simp
next
  case (Cons a bs)
  from Cons.prems consider
      (hd) "(x, y) \<in> set (resolved_from a bs w)"
    | (tl) "(x, y) \<in> set (resolved_cell bs (pairs_from a bs w))"
    by auto
  then show ?case
  proof cases
    case hd
    from resolved_from_mem [OF hd] show ?thesis by auto
  next
    case tl
    from Cons.IH [OF tl] show ?thesis
      by (auto simp add: frame_shape [OF frame_pairs_from])
  qed
qed

lemma resolved_grid_mem:
  "(x, y) \<in> set (resolved_grid g w) \<Longrightarrow>
   (\<exists>kc \<in> set g. x \<in> set (snd kc) \<and> y \<in> set (snd kc)) \<and>
   shape_type (shape (heap w x)) = shape_type (shape (heap w y))"
proof (induction g w rule: resolved_grid.induct)
  case (1 w)
  then show ?case by simp
next
  case (2 k c g w)
  from "2.prems" consider
      (hd) "(x, y) \<in> set (resolved_cell c w)"
    | (tl) "(x, y) \<in> set (resolved_grid g (cell_pairs c w))"
    by auto
  then show ?case
  proof cases
    case hd
    from resolved_cell_mem [OF hd] show ?thesis by simp
  next
    case tl
    from "2.IH" [OF tl] show ?thesis
      by (auto simp add: frame_shape [OF frame_cell_pairs])
  qed
qed

lemma resolved_pairs_mem:
  assumes "(x, y) \<in> set (resolved_pairs dt w)"
  shows "x \<in> set (bodies w) \<and> y \<in> set (bodies w)
       \<and> grid_key (position (heap w x)) = grid_key (position (heap w y))
       \<and> shape_type (shape (heap w x)) = shape_type (shape (heap w y))"
proof -
  define w1 where "w1 = w\<lparr>collisionCount := 0\<rparr>"
  define w3 where "w3 = bounds_all (integrate_all dt w1)"
  have mem: "(x, y) \<in> set (resolved_grid (build_grid (heap w) (bodies w)) w3)"
    using assms by (simp add: resolved_pairs_def w3_def w1_def)
  from resolved_grid_mem [OF mem]
  obtain kc where kc: "kc \<in> set (build_grid (heap w) (bodies w))"
      "x \<in> set (snd kc)" "y \<in> set (snd kc)"
    and kind: "shape_type (shape (heap w3 x)) = shape_type (shape (heap w3 y))"
    by blast
  have cell: "x \<in> set (bodies w) \<and> grid_key (position (heap w x)) = fst kc"
             "y \<in> set (bodies w) \<and> grid_key (position (heap w y)) = fst kc"
    using build_grid_ok [of "heap w" "bodies w"] kc by (simp_all add: grid_ok_def)
  have f2: "frame (set (bodies w)) w1 (integrate_all dt w1)"
    using frame_integrate_all [of w1 dt] by (simp add: w1_def)
  have "frame (set (bodies w)) (integrate_all dt w1) w3"
    using frame_bounds_all [of "integrate_all dt w1"] frame_bodies [OF f2]
    by (simp add: w3_def w1_def)
  with f2 have "frame (set (bodies w)) w1 w3" by (rule frame_trans)
  then have "shape (heap w3 r) = shape (heap w r)" for r
    using frame_shape [of _ w1 w3 r] by (simp add: w1_def)
  with kind cell show ?thesis by simp
qed

text \<open>
  Claim C9. After \<^verbatim>\<open>update(dt)\<close> the counter is the number of pairs the narrowphase
  resolved in this call; each of them is a pair of bodies of the world that were put in
  the same cell of the grid and have the same shape kind; and the counter the world had
  before the call has no influence on the result.
\<close>

theorem C9_collision_count:
  "collisionCount (update dt w) = length (resolved_pairs dt w)
   \<and> (\<forall>(a, b) \<in> set (resolved_pairs dt w).
         a \<in> set (bodies w) \<and> b \<in> set (bodies w)
         \<and> grid_key (position (heap w a)) = grid_key (position (heap w b))
         \<and> shape_type (shape (heap w a)) = shape_type (shape (heap w b)))
   \<and> update dt (w\<lparr>collisionCount := c\<rparr>) = update dt w"
  using resolved_pairs_mem [of _ _ dt w]
  by (auto simp add: update_count update_forgets_count)

theorem C9_collision_count_witness:
  "collisionCount (update (1 / 60) head_on_world) = 1
   \<and> resolved_pairs (1 / 60) head_on_world = [(0, 1)]
   \<and> collisionCount (update (1 / 60) (head_on_world\<lparr>collisionCount := 7\<rparr>)) = 1"
  using C9_collision_count [of "1 / 60" head_on_world 7]
  by (simp add: head_on_resolved)

subsection \<open>The bodies list\<close>

text \<open>
  Claim C10. \<^verbatim>\<open>update(dt)\<close> leaves the array \<^verbatim>\<open>bodies\<close> as it was, the same references
  in the same order, and also the gravity and the bounds; every body keeps its shape,
  mass, inverse mass and material coefficients; and an object that is not in
  \<^verbatim>\<open>bodies\<close> is not touched at all.
\<close>

theorem C10_update_keeps_bodies:
  "bodies (update dt w) = bodies w
   \<and> gravity (update dt w) = gravity w
   \<and> bounds (update dt w) = bounds w
   \<and> (\<forall>r. shape (heap (update dt w) r) = shape (heap w r)
          \<and> mass (heap (update dt w) r) = mass (heap w r)
          \<and> invMass (heap (update dt w) r) = invMass (heap w r)
          \<and> restitution (heap (update dt w) r) = restitution (heap w r)
          \<and> friction (heap (update dt w) r) = friction (heap w r))
   \<and> (\<forall>r. r \<notin> set (bodies w) \<longrightarrow> heap (update dt w) r = heap w r)"
  using frame_update [of w dt] by (simp add: frame_def body_kept_def)

theorem C10_update_keeps_bodies_witness:
  "bodies (update (1 / 60) head_on_world) = [0, 1]
   \<and> 2 \<notin> set (bodies head_on_world)
   \<and> heap (update (1 / 60) head_on_world) 2 = head_on_a"
  using C10_update_keeps_bodies [of "1 / 60" head_on_world]
  by (simp add: head_on_heap) (simp add: head_on_world_def addBody_def PhysicsWorld_def)

subsection \<open>The broadphase grid\<close>

lemma map_of_grid_push:
  "map_of (grid_push k b g) k' = (if k' = k then Some (cell_of g k @ [b]) else map_of g k')"
  by (induction g) (auto simp add: cell_of_def)

lemma cell_of_grid_push:
  "cell_of (grid_push k b g) k' = (if k' = k then cell_of g k @ [b] else cell_of g k')"
  by (simp add: cell_of_def map_of_grid_push)

lemma keys_grid_push: "fst ` set (grid_push k b g) = insert k (fst ` set g)"
proof (induction g)
  case Nil
  show ?case by simp
next
  case (Cons kc g)
  obtain k' c' where kc: "kc = (k', c')" by (cases kc)
  show ?case
  proof (cases "k' = k")
    case True
    then show ?thesis by (simp add: kc)
  next
    case False
    then show ?thesis using Cons.IH by (simp add: kc insert_commute)
  qed
qed

lemma distinct_grid_push:
  "distinct (map fst g) \<Longrightarrow> distinct (map fst (grid_push k b g))"
proof (induction g)
  case Nil
  then show ?case by simp
next
  case (Cons kc g)
  obtain k' c' where kc: "kc = (k', c')" by (cases kc)
  show ?case
  proof (cases "k' = k")
    case True
    then show ?thesis using Cons.prems by (simp add: kc)
  next
    case False
    have "k' \<notin> fst ` set (grid_push k b g)"
      using Cons.prems False by (simp add: keys_grid_push kc)
    then show ?thesis using Cons False by (simp add: kc)
  qed
qed

lemma fold_grid_push:
  "cell_of (fold (\<lambda>b g. grid_push (kf b) b g) bs g) k = cell_of g k @ filter (\<lambda>b. kf b = k) bs"
  by (induction bs arbitrary: g) (simp_all add: cell_of_grid_push)

lemma fold_grid_distinct:
  "distinct (map fst g) \<Longrightarrow> distinct (map fst (fold (\<lambda>b g. grid_push (kf b) b g) bs g))"
  by (induction bs arbitrary: g) (simp_all add: distinct_grid_push)

lemma build_grid_cells:
  assumes "kc \<in> set (build_grid h bs)"
  shows "snd kc = filter (\<lambda>b. grid_key (position (h b)) = fst kc) bs"
proof -
  have d: "distinct (map fst (build_grid h bs))"
    unfolding build_grid_def by (rule fold_grid_distinct) simp
  have "map_of (build_grid h bs) (fst kc) = Some (snd kc)"
    using assms d by simp
  then have "cell_of (build_grid h bs) (fst kc) = snd kc" by (simp add: cell_of_def)
  moreover have "cell_of (build_grid h bs) (fst kc) =
                 cell_of [] (fst kc) @ filter (\<lambda>b. grid_key (position (h b)) = fst kc) bs"
    unfolding build_grid_def by (rule fold_grid_push)
  ultimately show ?thesis by (simp add: cell_of_def)
qed

lemma filter_key_short:
  "distinct (map f xs) \<Longrightarrow> length (filter (\<lambda>x. f x = k) xs) \<le> 1"
proof (induction xs)
  case Nil
  then show ?case by simp
next
  case (Cons x xs)
  show ?case
  proof (cases "f x = k")
    case True
    have "\<forall>y \<in> set xs. f y \<noteq> k"
      using Cons.prems True by (auto simp add: image_iff)
    then have "filter (\<lambda>x. f x = k) xs = []"
      by (simp add: filter_empty_conv)
    with True show ?thesis by simp
  next
    case False
    with Cons show ?thesis by simp
  qed
qed

lemma cell_pairs_short: "length c \<le> 1 \<Longrightarrow> cell_pairs c w = w"
  by (cases c) auto

lemma object_collisions_short:
  "\<forall>kc \<in> set g. length (snd kc) \<le> 1 \<Longrightarrow> object_collisions g w = w"
  by (induction g w rule: object_collisions.induct) (simp_all add: cell_pairs_short)

lemma update_distinct_cells:
  assumes "distinct (map (\<lambda>b. grid_key (position (heap w b))) (bodies w))"
  shows "update dt w = bounds_all (integrate_all dt (w\<lparr>collisionCount := 0\<rparr>))"
proof -
  have "\<forall>kc \<in> set (build_grid (heap w) (bodies w)). length (snd kc) \<le> 1"
  proof
    fix kc assume "kc \<in> set (build_grid (heap w) (bodies w))"
    then have "snd kc = filter (\<lambda>b. grid_key (position (heap w b)) = fst kc) (bodies w)"
      by (rule build_grid_cells)
    then show "length (snd kc) \<le> 1"
      using filter_key_short [OF assms, of "fst kc"] by simp
  qed
  then show ?thesis
    by (simp add: update_def Let_def object_collisions_short)
qed

lemma pairs_from_fold:
  "pairs_from a bs w = fold (\<lambda>(x, y). collide_pair x y) (map (Pair a) bs) w"
  by (induction bs arbitrary: w) simp_all

lemma cell_pairs_fold: "cell_pairs c w = fold (\<lambda>(x, y). collide_pair x y) (pairs_of c) w"
  by (induction c arbitrary: w) (simp_all add: pairs_from_fold)

lemma object_collisions_fold:
  "object_collisions g w = fold (\<lambda>(x, y). collide_pair x y) (candidate_pairs g) w"
  by (induction g w rule: object_collisions.induct)
     (simp_all add: candidate_pairs_def cell_pairs_fold)

lemma map_fst_grid_push:
  "map fst (grid_push k b g) = (if k \<in> fst ` set g then map fst g else map fst g @ [k])"
proof (induction g)
  case Nil
  show ?case by simp
next
  case (Cons kc g)
  obtain k' c' where kc: "kc = (k', c')" by (cases kc)
  show ?case
  proof (cases "k' = k")
    case True
    then show ?thesis by (simp add: kc)
  next
    case False
    then show ?thesis using Cons.IH by (simp add: kc)
  qed
qed

lemma build_grid_snoc:
  "build_grid h (bs @ [b]) = grid_push (grid_key (position (h b))) b (build_grid h bs)"
  by (simp add: build_grid_def)

lemma build_grid_keys:
  "map fst (build_grid h bs) = rev (remdups (rev (map (\<lambda>b. grid_key (position (h b))) bs)))"
proof (induction bs rule: rev_induct)
  case Nil
  show ?case by (simp add: build_grid_def)
next
  case (snoc b bs)
  have "fst ` set (build_grid h bs) = set (map fst (build_grid h bs))" by simp
  also have "\<dots> = (\<lambda>b. grid_key (position (h b))) ` set bs"
    by (simp only: snoc.IH) simp
  finally have keys: "fst ` set (build_grid h bs) = (\<lambda>b. grid_key (position (h b))) ` set bs" .
  show ?case
    by (simp add: build_grid_snoc map_fst_grid_push keys snoc.IH)
qed

lemma build_grid_closed:
  "build_grid h bs =
     map (\<lambda>k. (k, filter (\<lambda>b. grid_key (position (h b)) = k) bs))
       (rev (remdups (rev (map (\<lambda>b. grid_key (position (h b))) bs))))"
proof -
  let ?F = "\<lambda>k. filter (\<lambda>b. grid_key (position (h b)) = k) bs"
  have "build_grid h bs = map (\<lambda>kc. (fst kc, snd kc)) (build_grid h bs)" by simp
  also have "\<dots> = map (\<lambda>kc. (fst kc, ?F (fst kc))) (build_grid h bs)"
    by (rule map_cong) (simp_all add: build_grid_cells)
  also have "\<dots> = map (\<lambda>k. (k, ?F k)) (map fst (build_grid h bs))"
    by (simp add: comp_def)
  finally show ?thesis by (simp only: build_grid_keys)
qed

lemma pairs_of_filter:
  "pairs_of (filter P xs) = filter (\<lambda>(x, y). P x \<and> P y) (pairs_of xs)"
  by (induction xs) (simp_all add: filter_map comp_def)

lemma pairs_of_mem: "(x, y) \<in> set (pairs_of xs) \<Longrightarrow> x \<in> set xs \<and> y \<in> set xs"
  by (induction xs) auto

lemma candidate_pairs_grid:
  "set (candidate_pairs (build_grid h bs)) =
     {(x, y). (x, y) \<in> set (pairs_of bs) \<and>
              grid_key (position (h x)) = grid_key (position (h y))}"
proof -
  let ?kf = "\<lambda>b. grid_key (position (h b))"
  have "set (candidate_pairs (build_grid h bs)) =
        (\<Union>k \<in> ?kf ` set bs. set (pairs_of (filter (\<lambda>b. ?kf b = k) bs)))"
    by (subst build_grid_closed) (simp add: candidate_pairs_def comp_def)
  also have "\<dots> = {(x, y). (x, y) \<in> set (pairs_of bs) \<and> ?kf x = ?kf y}"
    by (auto simp add: pairs_of_filter dest: pairs_of_mem)
  finally show ?thesis .
qed

text \<open>
  Claim C2, as stated: the key of each body is computed from its position after the
  integration of the current step, so that the candidate pairs are those of the
  positions after integration. It fails: \<^verbatim>\<open>update\<close> builds the grid before the loop
  that integrates. In the scene below the two spheres start in the cells (1,5,0) and
  (0,5,0); after the integration of a step of 1/10 both are in the cell (0,5,0) and
  overlap, so the narrowphase test of the pair would succeed, but the pair is never
  tested: the step resolves no collision.
\<close>

theorem C2_counterexample:
  "build_grid (heap crossing_world) (bodies crossing_world) = [((1, 5, 0), [0]), ((0, 5, 0), [1])]
   \<and> grid_key (position (heap (bounds_all (integrate_all (1 / 10)
         (crossing_world\<lparr>collisionCount := 0\<rparr>))) 0)) = (0, 5, 0)
   \<and> grid_key (position (heap (bounds_all (integrate_all (1 / 10)
         (crossing_world\<lparr>collisionCount := 0\<rparr>))) 1)) = (0, 5, 0)
   \<and> narrow_test
        (heap (bounds_all (integrate_all (1 / 10) (crossing_world\<lparr>collisionCount := 0\<rparr>))) 0)
        (heap (bounds_all (integrate_all (1 / 10) (crossing_world\<lparr>collisionCount := 0\<rparr>))) 1)
   \<and> heap (update (1 / 10) crossing_world) =
       heap (bounds_all (integrate_all (1 / 10) (crossing_world\<lparr>collisionCount := 0\<rparr>)))
   \<and> collisionCount (update (1 / 10) crossing_world) = 0"
proof -
  have g: "build_grid (heap crossing_world) (bodies crossing_world)
           = [((1, 5, 0), [0]), ((0, 5, 0), [1])]"
    by (simp add: build_grid_def crossing_heap crossing_bodies grid_key_def)
  have k: "grid_key (position (heap (bounds_all (integrate_all (1 / 10)
             (crossing_world\<lparr>collisionCount := 0\<rparr>))) 0)) = (0, 5, 0)"
          "grid_key (position (heap (bounds_all (integrate_all (1 / 10)
             (crossing_world\<lparr>collisionCount := 0\<rparr>))) 1)) = (0, 5, 0)"
    by (simp_all add: crossing_after grid_key_def)
  have n: "narrow_test
        (heap (bounds_all (integrate_all (1 / 10) (crossing_world\<lparr>collisionCount := 0\<rparr>))) 0)
        (heap (bounds_all (integrate_all (1 / 10) (crossing_world\<lparr>collisionCount := 0\<rparr>))) 1)"
    by (simp add: narrow_test_def crossing_after Vec3_sub_def Vec3_length_def
        real_sqrt_divide Let_def)
  have u: "update (1 / 10) crossing_world =
           bounds_all (integrate_all (1 / 10) (crossing_world\<lparr>collisionCount := 0\<rparr>))"
    by (rule update_distinct_cells) (simp add: crossing_keys)
  have c: "collisionCount (update (1 / 10) crossing_world) = 0"
    by (simp add: u bounds_all_def integrate_all_def fold_step_integrate_count
        fold_step_bounds_count)
  from g k n u c show ?thesis by simp
qed

text \<open>
  Claim C2, amended: the grid that \<^verbatim>\<open>update\<close> uses is built first, from the heap the
  step starts with, and the narrowphase is the test and response of its candidate pairs,
  in their order, on the heap that integration and the boundary step leave. The grid has
  one cell for every key that the position of a body of \<^verbatim>\<open>bodies\<close> has at the start of
  the step, before gravity and integration, in the order in which the keys first occur
  and no key twice; the cell of a key holds, in the order of \<^verbatim>\<open>bodies\<close>, exactly the
  bodies whose start-of-step position has that key, so that every body is in the cell of
  its start-of-step key and in no other. The candidate pairs are therefore exactly the
  pairs of an earlier and a later entry of \<^verbatim>\<open>bodies\<close> whose start-of-step keys are
  equal. In particular, when the bodies of the world start the step in pairwise different
  cells, the step tests no pair and counts no collision, wherever integration moves
  them: \<^verbatim>\<open>update\<close> is then the integration and the boundary step alone.
\<close>

theorem C2_grid_from_start_positions:
  "update dt w =
     fold (\<lambda>(a, b). collide_pair a b) (candidate_pairs (build_grid (heap w) (bodies w)))
       (bounds_all (integrate_all dt (w\<lparr>collisionCount := 0\<rparr>)))
   \<and> build_grid (heap w) (bodies w) =
       map (\<lambda>k. (k, filter (\<lambda>b. grid_key (position (heap w b)) = k) (bodies w)))
         (rev (remdups (rev (map (\<lambda>b. grid_key (position (heap w b))) (bodies w)))))
   \<and> distinct (map fst (build_grid (heap w) (bodies w)))
   \<and> fst ` set (build_grid (heap w) (bodies w)) =
       (\<lambda>b. grid_key (position (heap w b))) ` set (bodies w)
   \<and> set (candidate_pairs (build_grid (heap w) (bodies w))) =
       {(x, y). (x, y) \<in> set (pairs_of (bodies w)) \<and>
                grid_key (position (heap w x)) = grid_key (position (heap w y))}
   \<and> (distinct (map (\<lambda>b. grid_key (position (heap w b))) (bodies w)) \<longrightarrow>
         update dt w = bounds_all (integrate_all dt (w\<lparr>collisionCount := 0\<rparr>))
         \<and> collisionCount (update dt w) = 0)"
proof -
  let ?g = "build_grid (heap w) (bodies w)"
  have c1: "update dt w =
     fold (\<lambda>(a, b). collide_pair a b) (candidate_pairs ?g)
       (bounds_all (integrate_all dt (w\<lparr>collisionCount := 0\<rparr>)))"
    by (simp add: update_def Let_def object_collisions_fold)
  have c2: "?g =
       map (\<lambda>k. (k, filter (\<lambda>b. grid_key (position (heap w b)) = k) (bodies w)))
         (rev (remdups (rev (map (\<lambda>b. grid_key (position (heap w b))) (bodies w)))))"
    by (rule build_grid_closed)
  have c3: "distinct (map fst ?g)"
    unfolding build_grid_def by (rule fold_grid_distinct) simp
  have "fst ` set ?g = set (map fst ?g)" by simp
  also have "\<dots> = (\<lambda>b. grid_key (position (heap w b))) ` set (bodies w)"
    by (simp only: build_grid_keys) simp
  finally have c4: "fst ` set ?g = (\<lambda>b. grid_key (position (heap w b))) ` set (bodies w)" .
  have c5: "set (candidate_pairs ?g) =
       {(x, y). (x, y) \<in> set (pairs_of (bodies w)) \<and>
                grid_key (position (heap w x)) = grid_key (position (heap w y))}"
    by (rule candidate_pairs_grid)
  have c6: "update dt w = bounds_all (integrate_all dt (w\<lparr>collisionCount := 0\<rparr>))
         \<and> collisionCount (update dt w) = 0"
    if "distinct (map (\<lambda>b. grid_key (position (heap w b))) (bodies w))"
    using update_distinct_cells [OF that, of dt]
    by (simp add: bounds_all_def integrate_all_def fold_step_integrate_count
        fold_step_bounds_count)
  from c1 c2 c3 c4 c5 c6 show ?thesis by blast
qed

theorem C2_grid_from_start_positions_witness:
  "distinct (map (\<lambda>b. grid_key (position (heap crossing_world b))) (bodies crossing_world))
   \<and> build_grid (heap crossing_world) (bodies crossing_world)
       = [((1, 5, 0), [0]), ((0, 5, 0), [1])]
   \<and> set (candidate_pairs (build_grid (heap crossing_world) (bodies crossing_world))) = {}
   \<and> collisionCount (update (1 / 60) crossing_world) = 0
   \<and> set (candidate_pairs (build_grid (heap head_on_world) (bodies head_on_world))) = {(0, 1)}"
proof -
  note x = C2_grid_from_start_positions [of "1 / 60" crossing_world]
  note h = C2_grid_from_start_positions [of "1 / 60" head_on_world]
  have d: "distinct (map (\<lambda>b. grid_key (position (heap crossing_world b)))
             (bodies crossing_world))"
    by (simp add: crossing_keys)
  have g: "build_grid (heap crossing_world) (bodies crossing_world)
       = [((1, 5, 0), [0]), ((0, 5, 0), [1])]"
    using x [THEN conjunct2, THEN conjunct1] crossing_keys by (simp add: crossing_heap)
  have "{(x, y). (x, y) \<in> set (pairs_of (bodies crossing_world)) \<and>
          grid_key (position (heap crossing_world x)) =
          grid_key (position (heap crossing_world y))} = {}"
    by (auto simp add: crossing_heap crossing_bodies grid_key_def)
  with x [THEN conjunct2, THEN conjunct2, THEN conjunct2, THEN conjunct2, THEN conjunct1]
  have e: "set (candidate_pairs (build_grid (heap crossing_world) (bodies crossing_world)))
           = {}"
    by (rule trans)
  have c: "collisionCount (update (1 / 60) crossing_world) = 0"
    using x [THEN conjunct2, THEN conjunct2, THEN conjunct2, THEN conjunct2, THEN conjunct2] d
    by blast
  have "{(x, y). (x, y) \<in> set (pairs_of (bodies head_on_world)) \<and>
          grid_key (position (heap head_on_world x)) =
          grid_key (position (heap head_on_world y))} = {(0, 1)}"
    by (auto simp add: head_on_heap head_on_bodies grid_key_def)
  with h [THEN conjunct2, THEN conjunct2, THEN conjunct2, THEN conjunct2, THEN conjunct1]
  have p: "set (candidate_pairs (build_grid (heap head_on_world) (bodies head_on_world)))
           = {(0, 1)}"
    by (rule trans)
  from d g e c p show ?thesis by simp
qed

subsection \<open>Sphere-sphere collision\<close>

lemma respond_velocity_fst:
  "a \<noteq> b \<Longrightarrow>
   velocity (respond n c a b h a) =
     Vec3_add (velocity (h a))
       (Vec3_mul (Vec3_mul n
          ((- (1 + min (restitution (h a)) (restitution (h b))) *
             Vec3_dot (Vec3_sub (velocity (h a)) (velocity (h b))) n) /
           (invMass (h a) + invMass (h b))))
        (invMass (h a)))"
  by (simp add: respond_def Let_def)

lemma respond_velocity_snd:
  "a \<noteq> b \<Longrightarrow>
   velocity (respond n c a b h b) =
     Vec3_sub (velocity (h b))
       (Vec3_mul (Vec3_mul n
          ((- (1 + min (restitution (h a)) (restitution (h b))) *
             Vec3_dot (Vec3_sub (velocity (h a)) (velocity (h b))) n) /
           (invMass (h a) + invMass (h b))))
        (invMass (h b)))"
  by (simp add: respond_def Let_def)

lemma head_on_impulse:
  fixes d :: vec3 and k m :: real
  assumes L: "0 < Vec3_length d" and m: "0 < m"
  shows "Vec3_mul (Vec3_mul (Vec3_normalize d)
          ((- (1 + min 1 1) *
             Vec3_dot (Vec3_sub (Vec3_mul d k) (Vec3_mul (Vec3_mul d k) (- 1))) (Vec3_normalize d)) /
           (1 / m + 1 / m))) (1 / m)
         = Vec3_mul d (- 2 * k)"
proof -
  define l where "l = Vec3_length d"
  obtain dx dy dz where d: "d = Vec3 dx dy dz" by (cases d)
  have l_pos: "0 < l" using L by (simp add: l_def)
  have l_sq: "l * l = dx * dx + dy * dy + dz * dz"
    unfolding l_def Vec3_length_def d by simp
  have "Vec3_normalize d = Vec3_mul d (1 / l)"
    using l_pos by (simp add: Vec3_normalize_def Let_def l_def [symmetric])
  then have n: "Vec3_normalize (Vec3 dx dy dz) = Vec3 (dx / l) (dy / l) (dz / l)"
    by (simp add: Vec3_mul_def d)
  have rel: "Vec3_dot (Vec3_sub (Vec3_mul d k) (Vec3_mul (Vec3_mul d k) (- 1))) (Vec3_normalize d)
             = 2 * k * l"
  proof -
    have "Vec3_dot (Vec3_sub (Vec3_mul d k) (Vec3_mul (Vec3_mul d k) (- 1))) (Vec3_normalize d)
          = 2 * k * (dx * dx + dy * dy + dz * dz) / l"
      by (simp add: n d Vec3_dot_def Vec3_sub_def Vec3_mul_def algebra_simps add_divide_distrib)
    also have "\<dots> = 2 * k * (l * l) / l" by (simp add: l_sq)
    also have "\<dots> = 2 * k * l" using l_pos by simp
    finally show ?thesis .
  qed
  have imp: "(- (1 + min 1 1) * (2 * k * l)) / (1 / m + 1 / m) = - 2 * k * l * m"
    using m by (simp add: field_simps)
  show ?thesis
    unfolding rel imp using l_pos m
    by (simp add: n d Vec3_mul_def)
qed

lemma object_collisions_append:
  "object_collisions (g1 @ g2) w = object_collisions g2 (object_collisions g1 w)"
  by (induction g1 w rule: object_collisions.induct) simp_all

lemma resolved_grid_append:
  "resolved_grid (g1 @ g2) w = resolved_grid g1 w @ resolved_grid g2 (object_collisions g1 w)"
  by (induction g1 w rule: resolved_grid.induct) simp_all

lemma length_count_list:
  "length xs = count_list xs p + length (filter (\<lambda>q. q \<noteq> p) xs)"
  by (induction xs) simp_all

text \<open>
  The response to a head-on pair, on any world the loops have reached: the test of the
  pair succeeds, the velocities are exchanged and the counter goes up by one.
\<close>

lemma head_on_pair:
  assumes ab: "a \<noteq> b"
    and sa: "shape (heap u a) = Sphere ra" and sb: "shape (heap u b) = Sphere rb"
    and m: "0 < m"
    and ia: "invMass (heap u a) = 1 / m" and ib: "invMass (heap u b) = 1 / m"
    and ea: "restitution (heap u a) = 1" and eb: "restitution (heap u b) = 1"
    and d: "d = Vec3_sub (position (heap u a)) (position (heap u b))"
    and pos: "0 < Vec3_length d" and lt: "Vec3_length d < ra + rb"
    and v: "v = Vec3_mul d k"
    and va: "velocity (heap u a) = v" and vb: "velocity (heap u b) = Vec3_mul v (- 1)"
  shows "narrow_test (heap u a) (heap u b)"
    and "velocity (heap (collide_pair a b u) a) = Vec3_mul v (- 1)"
    and "velocity (heap (collide_pair a b u) b) = v"
    and "collisionCount (collide_pair a b u) = collisionCount u + 1"
proof -
  show "narrow_test (heap u a) (heap u b)"
    using pos lt by (simp add: narrow_test_def sa sb d [symmetric] Let_def)
  have run: "collide_pair a b u =
             u\<lparr> heap := respond (Vec3_normalize d) (ra + rb - Vec3_length d) a b (heap u),
                collisionCount := collisionCount u + 1 \<rparr>"
    using pos lt by (simp add: collide_pair_def sa sb d [symmetric] Let_def)
  have imp: "Vec3_mul (Vec3_mul (Vec3_normalize d)
          ((- (1 + min (restitution (heap u a)) (restitution (heap u b))) *
             Vec3_dot (Vec3_sub (velocity (heap u a)) (velocity (heap u b))) (Vec3_normalize d)) /
           (invMass (heap u a) + invMass (heap u b)))) (1 / m)
         = Vec3_mul d (- 2 * k)"
    unfolding ea eb va vb ia ib v by (rule head_on_impulse [OF pos m])
  have "velocity (respond (Vec3_normalize d) (ra + rb - Vec3_length d) a b (heap u) a)
        = Vec3_add v (Vec3_mul d (- 2 * k))"
    unfolding respond_velocity_fst [OF ab] using imp va by (simp add: ia)
  moreover have "Vec3_add v (Vec3_mul d (- 2 * k)) = Vec3_mul v (- 1)"
    by (simp add: v Vec3_add_def Vec3_mul_def algebra_simps)
  ultimately show "velocity (heap (collide_pair a b u) a) = Vec3_mul v (- 1)"
    by (simp add: run)
  have "velocity (respond (Vec3_normalize d) (ra + rb - Vec3_length d) a b (heap u) b)
        = Vec3_sub (Vec3_mul v (- 1)) (Vec3_mul d (- 2 * k))"
    unfolding respond_velocity_snd [OF ab] using imp vb by (simp add: ia ib)
  moreover have "Vec3_sub (Vec3_mul v (- 1)) (Vec3_mul d (- 2 * k)) = v"
    by (simp add: v Vec3_sub_def Vec3_mul_def algebra_simps)
  ultimately show "velocity (heap (collide_pair a b u) b) = v"
    by (simp add: run)
  show "collisionCount (collide_pair a b u) = collisionCount u + 1"
    by (simp add: run)
qed

text \<open>A cell of the grid that holds two bodies, and the cells before and after it.\<close>

lemma grid_split_cell:
  fixes h :: "ref \<Rightarrow> rigid_body"
  assumes cell: "filter (\<lambda>r. grid_key (position (h r)) = grid_key (position (h a))) bs = [a, b]"
  shows "\<exists>g1 g2. build_grid h bs = g1 @ (grid_key (position (h a)), [a, b]) # g2
           \<and> (\<forall>kc \<in> set g1 \<union> set g2. a \<notin> set (snd kc) \<and> b \<notin> set (snd kc))"
proof -
  let ?kf = "\<lambda>r. grid_key (position (h r))"
  let ?g = "build_grid h bs"
  let ?k = "?kf a"
  have "cell_of ?g ?k = cell_of [] ?k @ filter (\<lambda>r. ?kf r = ?k) bs"
    unfolding build_grid_def by (rule fold_grid_push)
  then have "cell_of ?g ?k = [a, b]" by (simp add: cell cell_of_def)
  then have "map_of ?g ?k = Some [a, b]"
    by (simp add: cell_of_def split: option.splits)
  then have "(?k, [a, b]) \<in> set ?g" by (rule map_of_SomeD)
  then obtain g1 g2 where split: "?g = g1 @ (?k, [a, b]) # g2"
    by (auto dest: split_list)
  have dist: "distinct (map fst ?g)"
    unfolding build_grid_def by (rule fold_grid_distinct) simp
  have kb: "?kf b = ?k"
  proof -
    have "b \<in> set (filter (\<lambda>r. ?kf r = ?k) bs)" by (simp add: cell)
    then show ?thesis by simp
  qed
  have ok: "grid_ok ?kf (set bs) ?g" by (rule build_grid_ok)
  have other: "a \<notin> set (snd kc) \<and> b \<notin> set (snd kc)" if kc: "kc \<in> set g1 \<union> set g2" for kc
  proof -
    have "?k \<notin> fst ` set g1" "?k \<notin> fst ` set g2"
      using dist unfolding split by auto
    then have "fst kc \<noteq> ?k" using kc by (metis Un_iff imageI)
    moreover have "\<forall>r \<in> set (snd kc). ?kf r = fst kc"
      using ok kc unfolding split grid_ok_def by auto
    ultimately show ?thesis using kb by auto
  qed
  from split other show ?thesis by blast
qed

lemma frame_heap: "frame S w w' \<Longrightarrow> r \<notin> S \<Longrightarrow> heap w' r = heap w r"
  by (simp add: frame_def)

lemma frame_kept: "frame S w w' \<Longrightarrow> body_kept (heap w r) (heap w' r)"
  by (simp add: frame_def)

lemma object_collisions_avoid:
  assumes "\<forall>kc \<in> set g. r \<notin> set (snd kc)"
  shows "heap (object_collisions g w) r = heap w r"
proof -
  have "frame (\<Union>kc \<in> set g. set (snd kc)) w (object_collisions g w)"
    by (rule frame_object_collisions) auto
  then show ?thesis
    using assms by (intro frame_heap) auto
qed

lemma resolved_grid_avoid:
  assumes "\<forall>kc \<in> set g. r \<notin> set (snd kc)"
  shows "(r, y) \<notin> set (resolved_grid g w)"
  using resolved_grid_mem [of r y g w] assms by blast

text \<open>
  Claim C1. Two distinct spheres \<open>a\<close> and \<open>b\<close> of equal mass \<open>m > 0\<close> (so both inverse
  masses are \<open>1/m\<close>), both with restitution 1, lie in the same cell of the grid that
  \<^verbatim>\<open>update\<close> builds, and they are the two bodies of that cell: of the bodies of the
  world exactly \<open>a\<close> and \<open>b\<close>, in this order, start the step at a position with the key
  of \<open>a\<close>. The other cells hold any bodies. When the narrowphase of the call starts,
  that is on the heap \<open>w3\<close> that the integration and the boundary step of the same call
  leave, the two overlap, \<open>0 < |posA - posB| < radiusA + radiusB\<close>, and collide head-on:
  their velocities are \<open>v\<close> and \<open>-v\<close>, with \<open>v\<close> along the line of centres
  \<open>d = posA - posB\<close>. Then \<^verbatim>\<open>update\<close> returns with the velocities \<open>-v\<close> and \<open>v\<close>, it
  has resolved the pair exactly once, and its counter is one plus the number of the other
  pairs that it resolved. (In real arithmetic the velocities are exact. With \<open>b\<close> before
  \<open>a\<close> in \<^verbatim>\<open>bodies\<close> the statement applies with the two exchanged. A third body of the
  same cell can collide with \<open>a\<close> or \<open>b\<close> in the same call, and then the
  velocities at the return are not those that the response to this pair set; what the
  response to the pair does on the heap that the loops have reached is \<open>head_on_pair\<close>.)
\<close>

theorem C1_elastic_head_on:
  assumes ab: "a \<noteq> b"
    and cell: "filter (\<lambda>r. grid_key (position (heap w r)) = grid_key (position (heap w a)))
                 (bodies w) = [a, b]"
    and sa: "shape (heap w a) = Sphere ra" and sb: "shape (heap w b) = Sphere rb"
    and m: "0 < m" and ma: "mass (heap w a) = m" and mb: "mass (heap w b) = m"
    and ia: "invMass (heap w a) = (if mass (heap w a) > 0 then 1 / mass (heap w a) else 0)"
    and ib: "invMass (heap w b) = (if mass (heap w b) > 0 then 1 / mass (heap w b) else 0)"
    and ea: "restitution (heap w a) = 1" and eb: "restitution (heap w b) = 1"
    and w3: "w3 = bounds_all (integrate_all dt (w\<lparr>collisionCount := 0\<rparr>))"
    and d: "d = Vec3_sub (position (heap w3 a)) (position (heap w3 b))"
    and pos: "0 < Vec3_length d" and lt: "Vec3_length d < ra + rb"
    and v: "v = Vec3_mul d k"
    and va: "velocity (heap w3 a) = v" and vb: "velocity (heap w3 b) = Vec3_mul v (- 1)"
  shows "velocity (heap (update dt w) a) = Vec3_mul v (- 1)
       \<and> velocity (heap (update dt w) b) = v
       \<and> count_list (resolved_pairs dt w) (a, b) = 1
       \<and> collisionCount (update dt w) =
           1 + length (filter (\<lambda>p. p \<noteq> (a, b)) (resolved_pairs dt w))"
proof -
  let ?k = "grid_key (position (heap w a))"
  let ?g = "build_grid (heap w) (bodies w)"
  from grid_split_cell [OF cell] obtain g1 g2 where
    split: "?g = g1 @ (?k, [a, b]) # g2"
    and other: "\<forall>kc \<in> set g1 \<union> set g2. a \<notin> set (snd kc) \<and> b \<notin> set (snd kc)"
    by blast
  define uA where "uA = object_collisions g1 w3"
  define uB where "uB = collide_pair a b uA"
  have upd: "update dt w = object_collisions g2 uB"
    by (simp add: update_def Let_def split object_collisions_append w3 uA_def uB_def)
  have res: "resolved_pairs dt w =
             resolved_grid g1 w3 @
             (if narrow_test (heap uA a) (heap uA b) then [(a, b)] else []) @
             resolved_grid g2 uB"
    by (simp add: resolved_pairs_def split resolved_grid_append w3 uA_def uB_def)
  have kept: "body_kept (heap w r) (heap w3 r)" for r
    using frame_kept [OF frame_bounds_integrate [of "w\<lparr>collisionCount := 0\<rparr>" dt]]
    by (simp add: w3)
  have hA: "heap uA a = heap w3 a" "heap uA b = heap w3 b"
    unfolding uA_def using other by (simp_all add: object_collisions_avoid)
  have ia': "invMass (heap w a) = 1 / m" and ib': "invMass (heap w b) = 1 / m"
    using ia ib ma mb m by simp_all
  have st: "shape (heap uA a) = Sphere ra" "shape (heap uA b) = Sphere rb"
      "invMass (heap uA a) = 1 / m" "invMass (heap uA b) = 1 / m"
      "restitution (heap uA a) = 1" "restitution (heap uA b) = 1"
    using kept [of a] kept [of b] sa sb ia' ib' ea eb by (simp_all add: hA body_kept_def)
  have dyn: "d = Vec3_sub (position (heap uA a)) (position (heap uA b))"
      "velocity (heap uA a) = v" "velocity (heap uA b) = Vec3_mul v (- 1)"
    using d va vb by (simp_all add: hA)
  note pair = head_on_pair [OF ab st(1,2) m st(3,4,5,6) dyn(1) pos lt v dyn(2,3)]
  have "heap (update dt w) a = heap uB a" "heap (update dt w) b = heap uB b"
    unfolding upd using other by (simp_all add: object_collisions_avoid)
  then have vel: "velocity (heap (update dt w) a) = Vec3_mul v (- 1)"
      "velocity (heap (update dt w) b) = v"
    using pair(2,3) by (simp_all add: uB_def)
  have "(a, b) \<notin> set (resolved_grid g1 w3)" "(a, b) \<notin> set (resolved_grid g2 uB)"
    using other by (simp_all add: resolved_grid_avoid)
  then have cnt: "count_list (resolved_pairs dt w) (a, b) = 1"
    using pair(1) by (simp add: res)
  have "collisionCount (update dt w) = length (resolved_pairs dt w)"
    by (rule update_count)
  also have "\<dots> = count_list (resolved_pairs dt w) (a, b) +
                   length (filter (\<lambda>p. p \<noteq> (a, b)) (resolved_pairs dt w))"
    by (rule length_count_list)
  finally have "collisionCount (update dt w) =
           1 + length (filter (\<lambda>p. p \<noteq> (a, b)) (resolved_pairs dt w))"
    by (simp add: cnt)
  with vel cnt show ?thesis by simp
qed

theorem C1_elastic_head_on_witness:
  "velocity (heap (update (1 / 60) drift_world) 0) = Vec3 3 0 0
   \<and> velocity (heap (update (1 / 60) drift_world) 1) = Vec3 (- 3) 0 0
   \<and> count_list (resolved_pairs (1 / 60) drift_world) (0, 1) = 1
   \<and> collisionCount (update (1 / 60) drift_world) = 1"
proof -
  let ?w = drift_world
  let ?w3 = "bounds_all (integrate_all (1 / 60) (drift_world\<lparr>collisionCount := 0\<rparr>))"
  let ?d = "Vec3 (1 / 2) 0 0"
  have ab: "(0::nat) \<noteq> 1" by simp
  have cell: "filter (\<lambda>r. grid_key (position (heap ?w r)) = grid_key (position (heap ?w 0)))
                (bodies ?w) = [0, 1]"
    by (simp add: drift_heap head_on_bodies bystander_fields grid_key_def)
  have sa: "shape (heap ?w 0) = Sphere (1 / 2)" and sb: "shape (heap ?w 1) = Sphere (1 / 2)"
    and m: "(0::real) < 2" and ma: "mass (heap ?w 0) = 2" and mb: "mass (heap ?w 1) = 2"
    and ea: "restitution (heap ?w 0) = 1" and eb: "restitution (heap ?w 1) = 1"
    by (simp_all add: drift_heap head_on_bodies)
  have ia: "invMass (heap ?w 0) = (if mass (heap ?w 0) > 0 then 1 / mass (heap ?w 0) else 0)"
    and ib: "invMass (heap ?w 1) = (if mass (heap ?w 1) > 0 then 1 / mass (heap ?w 1) else 0)"
    by (simp_all add: drift_heap head_on_bodies)
  have w3: "?w3 = bounds_all (integrate_all (1 / 60) (?w\<lparr>collisionCount := 0\<rparr>))" by simp
  have d: "?d = Vec3_sub (position (heap ?w3 0)) (position (heap ?w3 1))"
    by (simp add: drift_after Vec3_sub_def)
  have len: "Vec3_length ?d = 1 / 2"
    by (simp add: Vec3_length_def real_sqrt_divide)
  have pos: "0 < Vec3_length ?d" and lt: "Vec3_length ?d < 1 / 2 + 1 / 2"
    by (simp_all add: len)
  have v: "Vec3 (- 3) 0 0 = Vec3_mul ?d (- 6)"
    by (simp add: Vec3_mul_def)
  have va: "velocity (heap ?w3 0) = Vec3 (- 3) 0 0"
    and vb: "velocity (heap ?w3 1) = Vec3_mul (Vec3 (- 3) 0 0) (- 1)"
    by (simp_all add: drift_after Vec3_mul_def)
  show ?thesis
    using C1_elastic_head_on [OF ab cell sa sb m ma mb ia ib ea eb w3 d pos lt v va vb]
    by (simp add: Vec3_mul_def drift_resolved)
qed

subsection \<open>Scene save and import\<close>



text \<open>
  The import reads the height of a cylinder as \<^verbatim>\<open>obj.height || 2\<close>: it builds no
  cylinder of height 0, and a cylinder constructed with the height 0 comes back with the
  height 2.
\<close>

lemma import_cylinder_height:
  "import_shape obj = Some (Inr (Cylinder r h)) \<Longrightarrow> h \<noteq> 0"
  by (auto simp add: import_shape_def SphereShape_def BoxShape_def CylinderShape_def js_or_def
      split: if_splits option.splits)

lemma flat_cylinder_height:
  "shape flat_cylinder = Cylinder 1 0
   \<and> map_option (map_sum id shape) (roundtrip flat_cylinder) = Some (Inr (Cylinder 1 2))"
  by (simp add: flat_cylinder_def roundtrip_def save_body_def import_body_def import_shape_def
      RigidBody_def js_or_def CylinderShape_def option.map_comp sum.map_comp comp_def)




end
